theory Spec2Isabelle
  imports Main "HOL-Library.AList"
begin

section \<open>Python values, errors and dictionaries\<close>

text \<open>
  The classes of \<^verbatim>\<open>hackathon_bot/payloads.py\<close>. Every one except \<open>Payload\<close> is declared
  with \<^verbatim>\<open>@dataclass(slots=True, frozen=True)\<close>; \<open>Payload\<close> is a plain class.
\<close>

datatype pyclass =
    ServerSettings | RawPlayer | RawMap | RawTileObject | RawTileEntity
  | RawWall | RawBullet | RawTank | RawTurret | RawZone
  | Payload | ConnectionRejectedPayload | LobbyDataPayload | GameStatePayload
  | GameEndPayload | ResponseActionPayload | TankMovementPayload
  | TankRotationPayload | TankShootPayload | ResponsePassPayload

text \<open>
  The values the decoders see: the tree a JSON parser returns (numbers restricted to
  integers; no function of the module inspects a number), the tuples the decoders build,
  and instances of the classes above. A dataclass does not check the types of its
  fields, so a field holds any value. A dictionary keeps its keys in insertion order
  and is an association list with distinct keys.
\<close>

datatype pyval =
    PNone
  | PBool bool
  | PInt int
  | PStr string
  | PList "pyval list"
  | PTuple "pyval list"
  | PDict "(string \<times> pyval) list"
  | PObj pyclass "(string \<times> pyval) list"

datatype type_error =
    UnexpectedKeyword string
  | MultipleValues string
  | TooManyPositional
  | MissingArguments "string list"
  | AbstractClass
  | NotAMapping
  | NotSubscriptable
  | NotIterable
  | BadArgument
  | NotAnInstance

datatype error =
    TypeError type_error
  | KeyError string
  | ValueError string
  | AttributeError string
  | FrozenInstanceError string

definition ebind :: "error + 'a \<Rightarrow> ('a \<Rightarrow> error + 'b) \<Rightarrow> error + 'b" where
  "ebind m f = (case m of Inl e \<Rightarrow> Inl e | Inr v \<Rightarrow> f v)"

text \<open>\<^verbatim>\<open>d[key]\<close> for a string key.\<close>

fun getitem :: "pyval \<Rightarrow> string \<Rightarrow> error + pyval" where
  "getitem (PDict d) k = (case map_of d k of None \<Rightarrow> Inl (KeyError k) | Some v \<Rightarrow> Inr v)"
| "getitem (PList xs) k = Inl (TypeError BadArgument)"
| "getitem (PTuple xs) k = Inl (TypeError BadArgument)"
| "getitem (PStr s) k = Inl (TypeError BadArgument)"
| "getitem v k = Inl (TypeError NotSubscriptable)"

text \<open>\<^verbatim>\<open>d[key] = value\<close>: the dictionary after the assignment.\<close>

fun setitem :: "pyval \<Rightarrow> string \<Rightarrow> pyval \<Rightarrow> error + pyval" where
  "setitem (PDict d) k v = Inr (PDict (AList.update k v d))"
| "setitem (PList xs) k v = Inl (TypeError BadArgument)"
| "setitem w k v = Inl (TypeError NotSubscriptable)"

text \<open>\<^verbatim>\<open>d.get(key, default)\<close>.\<close>

fun dict_get :: "pyval \<Rightarrow> string \<Rightarrow> pyval \<Rightarrow> error + pyval" where
  "dict_get (PDict d) k dflt = Inr (case map_of d k of None \<Rightarrow> dflt | Some v \<Rightarrow> v)"
| "dict_get v k dflt = Inl (AttributeError ''get'')"

text \<open>\<^verbatim>\<open>d.pop(key)\<close>: the value and the dictionary without the key.\<close>

fun dict_pop :: "pyval \<Rightarrow> string \<Rightarrow> error + (pyval \<times> pyval)" where
  "dict_pop (PDict d) k =
     (case map_of d k of None \<Rightarrow> Inl (KeyError k)
      | Some v \<Rightarrow> Inr (v, PDict (AList.delete k d)))"
| "dict_pop (PList xs) k = Inl (TypeError BadArgument)"
| "dict_pop v k = Inl (AttributeError ''pop'')"

text \<open>\<^verbatim>\<open>d.pop(key, default)\<close>.\<close>

fun dict_pop_default :: "pyval \<Rightarrow> string \<Rightarrow> pyval \<Rightarrow> error + (pyval \<times> pyval)" where
  "dict_pop_default (PDict d) k dflt =
     (case map_of d k of None \<Rightarrow> Inr (dflt, PDict d)
      | Some v \<Rightarrow> Inr (v, PDict (AList.delete k d)))"
| "dict_pop_default (PList xs) k dflt = Inl (TypeError BadArgument)"
| "dict_pop_default v k dflt = Inl (AttributeError ''pop'')"

text \<open>What a \<^verbatim>\<open>for\<close> loop over a value visits.\<close>

fun py_iter :: "pyval \<Rightarrow> error + pyval list" where
  "py_iter (PList xs) = Inr xs"
| "py_iter (PTuple xs) = Inr xs"
| "py_iter (PDict d) = Inr (map (\<lambda>kv. PStr (fst kv)) d)"
| "py_iter (PStr s) = Inr (map (\<lambda>c. PStr [c]) s)"
| "py_iter v = Inl (TypeError NotIterable)"

text \<open>The loop of a generator expression: the first element that raises ends it.\<close>

primrec traverse :: "('a \<Rightarrow> error + 'b) \<Rightarrow> 'a list \<Rightarrow> error + 'b list" where
  "traverse f [] = Inr []"
| "traverse f (x # xs) =
     (case f x of Inl e \<Rightarrow> Inl e
      | Inr y \<Rightarrow> (case traverse f xs of Inl e \<Rightarrow> Inl e | Inr ys \<Rightarrow> Inr (y # ys)))"

text \<open>\<^verbatim>\<open>tuple(f(x) for x in src)\<close>.\<close>

definition tuple_of :: "(pyval \<Rightarrow> error + pyval) \<Rightarrow> pyval \<Rightarrow> error + pyval" where
  "tuple_of f src =
     ebind (py_iter src) (\<lambda>xs. ebind (traverse f xs) (\<lambda>ys. Inr (PTuple ys)))"

text \<open>The keyword arguments of \<^verbatim>\<open>cls(**json_data)\<close>.\<close>

fun kwargs_of :: "pyval \<Rightarrow> error + (string \<times> pyval) list" where
  "kwargs_of (PDict d) = Inr d"
| "kwargs_of v = Inl (TypeError NotAMapping)"

section \<open>The dataclasses\<close>

text \<open>
  The fields of each class in declaration order, inherited ones first, each with its
  default when it has one.
\<close>

fun fields :: "pyclass \<Rightarrow> (string \<times> pyval option) list" where
  "fields ServerSettings =
     [(''grid_dimension'', None), (''number_of_players'', None), (''seed'', None),
      (''ticks'', None), (''broadcast_interval'', None), (''eager_broadcast'', None)]"
| "fields RawPlayer =
     [(''id'', None), (''nickname'', None), (''color'', None),
      (''score'', Some PNone), (''ping'', Some PNone), (''ticks_to_regen'', Some PNone)]"
| "fields RawMap = [(''tiles'', None), (''zones'', None), (''visibility'', None)]"
| "fields RawTileObject = [(''type'', None), (''entity'', None)]"
| "fields RawTileEntity = []"
| "fields RawWall = []"
| "fields RawBullet =
     [(''id'', None), (''speed'', Some PNone), (''direction'', Some PNone)]"
| "fields RawTank =
     [(''owner_id'', None), (''direction'', None), (''turret'', None),
      (''health'', Some PNone)]"
| "fields RawTurret =
     [(''direction'', None), (''bullet_count'', Some PNone),
      (''ticks_to_regen_bullet'', Some PNone)]"
| "fields RawZone =
     [(''x'', None), (''y'', None), (''width'', None), (''height'', None),
      (''index'', None), (''status'', None), (''player_id'', Some PNone),
      (''captured_by_id'', Some PNone), (''retaken_by_id'', Some PNone),
      (''remaining_ticks'', Some PNone)]"
| "fields Payload = []"
| "fields ConnectionRejectedPayload = [(''reason'', None)]"
| "fields LobbyDataPayload =
     [(''player_id'', None), (''players'', None), (''server_settings'', None)]"
| "fields GameStatePayload =
     [(''id'', None), (''tick'', None), (''players'', None), (''map'', None)]"
| "fields GameEndPayload = [(''players'', None)]"
| "fields ResponseActionPayload = [(''game_state_id'', None)]"
| "fields TankMovementPayload = [(''game_state_id'', None), (''direction'', None)]"
| "fields TankRotationPayload =
     [(''game_state_id'', None), (''tank_rotation'', None), (''turret_rotation'', None)]"
| "fields TankShootPayload = [(''game_state_id'', None)]"
| "fields ResponsePassPayload = [(''game_state_id'', None)]"

text \<open>The \<^verbatim>\<open>frozen\<close> and \<^verbatim>\<open>slots\<close> arguments of the class's decorator.\<close>

fun frozen :: "pyclass \<Rightarrow> bool" where
  "frozen Payload = False"
| "frozen c = True"

fun slots :: "pyclass \<Rightarrow> bool" where
  "slots Payload = False"
| "slots c = True"

text \<open>The proper ancestors of a class among the classes of the module.\<close>

fun superclasses :: "pyclass \<Rightarrow> pyclass list" where
  "superclasses RawWall = [RawTileEntity]"
| "superclasses RawBullet = [RawTileEntity]"
| "superclasses RawTank = [RawTileEntity]"
| "superclasses ConnectionRejectedPayload = [Payload]"
| "superclasses LobbyDataPayload = [Payload]"
| "superclasses GameStatePayload = [Payload]"
| "superclasses GameEndPayload = [Payload]"
| "superclasses ResponseActionPayload = [Payload]"
| "superclasses TankMovementPayload = [ResponseActionPayload, Payload]"
| "superclasses TankRotationPayload = [ResponseActionPayload, Payload]"
| "superclasses TankShootPayload = [ResponseActionPayload, Payload]"
| "superclasses ResponsePassPayload = [ResponseActionPayload, Payload]"
| "superclasses c = []"

definition issubclass :: "pyclass \<Rightarrow> pyclass \<Rightarrow> bool" where
  "issubclass c d = (c = d \<or> d \<in> set (superclasses c))"

text \<open>
  A class that still has an abstract method cannot be instantiated:
  \<open>RawTileEntity\<close> declares \<^verbatim>\<open>from_json\<close> abstract and its subclasses define it.
\<close>

fun abstract :: "pyclass \<Rightarrow> bool" where
  "abstract RawTileEntity = True"
| "abstract c = False"

text \<open>
  The first keyword argument the generated \<^verbatim>\<open>__init__\<close> refuses: a name that is no
  parameter, or a parameter a positional argument has filled already.
\<close>

fun bad_keyword :: "string list \<Rightarrow> string list \<Rightarrow> string list \<Rightarrow> type_error option" where
  "bad_keyword names filled [] = None"
| "bad_keyword names filled (k # ks) =
     (if k \<notin> set names then Some (UnexpectedKeyword k)
      else if k \<in> set filled then Some (MultipleValues k)
      else bad_keyword names filled ks)"

definition bound_value :: "(string \<times> pyval) list \<Rightarrow> string \<times> pyval option \<Rightarrow> pyval option" where
  "bound_value bound f = (case map_of bound (fst f) of Some v \<Rightarrow> Some v | None \<Rightarrow> snd f)"

text \<open>
  \<^verbatim>\<open>cls(*args, **kwargs)\<close> for a dataclass: the argument binding of the generated
  \<^verbatim>\<open>__init__\<close>, which stores the arguments without checking their types. Its
  parameters are \<^verbatim>\<open>self\<close>, which the new instance fills, and the fields; the
  positional arguments fill the first fields.
\<close>

definition dataclass_new :: "pyclass \<Rightarrow> pyval list \<Rightarrow> (string \<times> pyval) list \<Rightarrow> error + pyval" where
  "dataclass_new cls args kwargs =
     (let fs = fields cls; names = map fst fs; pos = zip names args in
      if abstract cls then Inl (TypeError AbstractClass)
      else case bad_keyword (''self'' # names) (''self'' # map fst pos) (map fst kwargs) of
        Some e \<Rightarrow> Inl (TypeError e)
      | None \<Rightarrow>
          if length names < length args then Inl (TypeError TooManyPositional)
          else let bound = pos @ kwargs;
                   missing = filter (\<lambda>f. bound_value bound f = None) fs in
            if missing \<noteq> [] then Inl (TypeError (MissingArguments (map fst missing)))
            else Inr (PObj cls
                   (map (\<lambda>f. (fst f, case bound_value bound f of Some v \<Rightarrow> v | None \<Rightarrow> PNone))
                      fs)))"

text \<open>Attribute access on an instance.\<close>

fun py_getattr :: "pyval \<Rightarrow> string \<Rightarrow> error + pyval" where
  "py_getattr (PObj c fs) n =
     (case map_of fs n of None \<Rightarrow> Inl (AttributeError n) | Some v \<Rightarrow> Inr v)"
| "py_getattr v n = Inl (AttributeError n)"

text \<open>
  Attribute assignment and deletion. A frozen dataclass gets the methods
  \<^verbatim>\<open>
  def __setattr__(self, name, value):
      if type(self) is cls or name in fields:
          raise FrozenInstanceError(...)
      super(cls, self).__setattr__(name, value)
  \<close>
  and the same for \<^verbatim>\<open>__delattr__\<close>, where \<^verbatim>\<open>fields\<close> are the names of the fields of the
  class. With \<^verbatim>\<open>slots=True\<close> the decorator returns a new class, while \<^verbatim>\<open>cls\<close> in these
  methods is still the class it was given: on an instance the first test is false, and
  for a name that is no field the call of \<^verbatim>\<open>super\<close> raises a type error, since the
  instance is no instance of \<^verbatim>\<open>cls\<close>.
\<close>

fun py_setattr :: "pyval \<Rightarrow> string \<Rightarrow> pyval \<Rightarrow> error + pyval" where
  "py_setattr (PObj c fs) n v =
     (if frozen c then
        (if \<not> slots c \<or> n \<in> fst ` set (fields c) then Inl (FrozenInstanceError n)
         else Inl (TypeError NotAnInstance))
      else Inr (PObj c (AList.update n v fs)))"
| "py_setattr w n v = Inl (AttributeError n)"

fun py_delattr :: "pyval \<Rightarrow> string \<Rightarrow> error + pyval" where
  "py_delattr (PObj c fs) n =
     (if frozen c then
        (if \<not> slots c \<or> n \<in> fst ` set (fields c) then Inl (FrozenInstanceError n)
         else Inl (TypeError NotAnInstance))
      else if n \<in> fst ` set fs then Inr (PObj c (AList.delete n fs))
      else Inl (AttributeError n))"
| "py_delattr w n = Inl (AttributeError n)"

section \<open>The decoders of \<^verbatim>\<open>payloads.py\<close>\<close>

definition RawPlayer_from_json :: "pyval \<Rightarrow> error + pyval" where
  "RawPlayer_from_json json_data = ebind (kwargs_of json_data) (dataclass_new RawPlayer [])"

text \<open>
  The abstract class method of \<open>RawTileEntity\<close>: its body is a docstring, so a call on
  the class itself returns \<^verbatim>\<open>None\<close>.
\<close>

definition RawTileEntity_from_json :: "pyval \<Rightarrow> error + pyval" where
  "RawTileEntity_from_json json_data = Inr PNone"

definition RawWall_from_json :: "pyval \<Rightarrow> error + pyval" where
  "RawWall_from_json json_data = ebind (kwargs_of json_data) (dataclass_new RawWall [])"

definition RawBullet_from_json :: "pyval \<Rightarrow> error + pyval" where
  "RawBullet_from_json json_data = ebind (kwargs_of json_data) (dataclass_new RawBullet [])"

definition RawTurret_from_json :: "pyval \<Rightarrow> error + pyval" where
  "RawTurret_from_json json_data = ebind (kwargs_of json_data) (dataclass_new RawTurret [])"

definition RawTank_from_json :: "pyval \<Rightarrow> error + pyval" where
  "RawTank_from_json json_data =
     ebind (getitem json_data ''turret'') (\<lambda>t.
     ebind (RawTurret_from_json t) (\<lambda>turret.
     ebind (setitem json_data ''turret'' turret) (\<lambda>json_data.
     ebind (kwargs_of json_data) (dataclass_new RawTank []))))"

text \<open>
  \<^verbatim>\<open>globals().get(name)\<close> for the names the occupant decoder asks for, which all start
  with \<^verbatim>\<open>Raw\<close>: the classes of the module with such a name.
\<close>

definition globals_get :: "string \<Rightarrow> pyclass option" where
  "globals_get name = map_of
     [(''RawPlayer'', RawPlayer), (''RawMap'', RawMap), (''RawTileObject'', RawTileObject),
      (''RawTileEntity'', RawTileEntity), (''RawWall'', RawWall), (''RawBullet'', RawBullet),
      (''RawTank'', RawTank), (''RawTurret'', RawTurret), (''RawZone'', RawZone)] name"

text \<open>
  \<^verbatim>\<open>payload_class.from_json\<close> for a class that passed the \<^verbatim>\<open>issubclass\<close> test; the
  last equation is never reached behind that test.
\<close>

fun entity_from_json :: "pyclass \<Rightarrow> pyval \<Rightarrow> error + pyval" where
  "entity_from_json RawTileEntity json_data = RawTileEntity_from_json json_data"
| "entity_from_json RawWall json_data = RawWall_from_json json_data"
| "entity_from_json RawBullet json_data = RawBullet_from_json json_data"
| "entity_from_json RawTank json_data = RawTank_from_json json_data"
| "entity_from_json c json_data = Inl (AttributeError ''from_json'')"

text \<open>
  \<open>RawTileObject.from_json\<close>. The library function \<^verbatim>\<open>humps.pascalize\<close> is no part of
  the repository: the decoder takes it as the parameter \<open>pz\<close>, which gives the text
  that the f-string inserts after \<^verbatim>\<open>Raw\<close>, or the error the call raises.
\<close>

definition RawTileObject_from_json :: "(pyval \<Rightarrow> error + string) \<Rightarrow> pyval \<Rightarrow> error + pyval" where
  "RawTileObject_from_json pz json_data =
     ebind (dict_pop json_data ''type'') (\<lambda>popped.
     let obj_type = fst popped; json_data = snd popped in
     ebind (pz obj_type) (\<lambda>pascal.
     let payload_class_name = ''Raw'' @ pascal;
         payload_class = globals_get payload_class_name in
     case payload_class of
       None \<Rightarrow> Inl (ValueError (''Unknown tile object class: '' @ payload_class_name))
     | Some c \<Rightarrow>
         if \<not> issubclass c RawTileEntity
         then Inl (ValueError (''Unknown tile object class: '' @ payload_class_name))
         else
           ebind (dict_get json_data ''payload'' (PDict [])) (\<lambda>payload.
           ebind (entity_from_json c payload) (\<lambda>entity.
           dataclass_new RawTileObject [obj_type, entity] []))))"

definition RawZone_from_json :: "pyval \<Rightarrow> error + pyval" where
  "RawZone_from_json json_data =
     ebind (dict_pop_default json_data ''status'' (PDict [])) (\<lambda>popped.
     let status = fst popped; json_data = snd popped in
     ebind (getitem status ''type'') (\<lambda>v.
     ebind (setitem json_data ''status'' v) (\<lambda>json_data.
     ebind (dict_get status ''player_id'' PNone) (\<lambda>v.
     ebind (setitem json_data ''player_id'' v) (\<lambda>json_data.
     ebind (dict_get status ''captured_by_id'' PNone) (\<lambda>v.
     ebind (setitem json_data ''captured_by_id'' v) (\<lambda>json_data.
     ebind (dict_get status ''retaken_by_id'' PNone) (\<lambda>v.
     ebind (setitem json_data ''retaken_by_id'' v) (\<lambda>json_data.
     ebind (dict_get status ''remaining_ticks'' PNone) (\<lambda>v.
     ebind (setitem json_data ''remaining_ticks'' v) (\<lambda>json_data.
     ebind (kwargs_of json_data) (dataclass_new RawZone []))))))))))))"

definition RawMap_from_json :: "(pyval \<Rightarrow> error + string) \<Rightarrow> pyval \<Rightarrow> error + pyval" where
  "RawMap_from_json pz json_data =
     ebind (getitem json_data ''tiles'') (\<lambda>rows.
     ebind (tuple_of (tuple_of (tuple_of (RawTileObject_from_json pz))) rows) (\<lambda>tiles.
     ebind (setitem json_data ''tiles'' tiles) (\<lambda>json_data.
     ebind (getitem json_data ''zones'') (\<lambda>zs.
     ebind (tuple_of RawZone_from_json zs) (\<lambda>zones.
     ebind (setitem json_data ''zones'' zones) (\<lambda>json_data.
     ebind (getitem json_data ''visibility'') (\<lambda>vis.
     ebind (tuple_of Inr vis) (\<lambda>visibility.
     ebind (setitem json_data ''visibility'' visibility) (\<lambda>json_data.
     ebind (kwargs_of json_data) (dataclass_new RawMap []))))))))))"

definition ConnectionRejectedPayload_from_json :: "pyval \<Rightarrow> error + pyval" where
  "ConnectionRejectedPayload_from_json json_data =
     ebind (kwargs_of json_data) (dataclass_new ConnectionRejectedPayload [])"

definition LobbyDataPayload_from_json :: "pyval \<Rightarrow> error + pyval" where
  "LobbyDataPayload_from_json json_data =
     ebind (getitem json_data ''players'') (\<lambda>ps.
     ebind (tuple_of RawPlayer_from_json ps) (\<lambda>players.
     ebind (setitem json_data ''players'' players) (\<lambda>json_data.
     ebind (getitem json_data ''server_settings'') (\<lambda>s.
     ebind (ebind (kwargs_of s) (dataclass_new ServerSettings [])) (\<lambda>server_settings.
     ebind (setitem json_data ''server_settings'' server_settings) (\<lambda>json_data.
     ebind (kwargs_of json_data) (dataclass_new LobbyDataPayload [])))))))"

definition GameStatePayload_from_json :: "(pyval \<Rightarrow> error + string) \<Rightarrow> pyval \<Rightarrow> error + pyval" where
  "GameStatePayload_from_json pz json_data =
     ebind (getitem json_data ''players'') (\<lambda>ps.
     ebind (tuple_of RawPlayer_from_json ps) (\<lambda>players.
     ebind (setitem json_data ''players'' players) (\<lambda>json_data.
     ebind (getitem json_data ''map'') (\<lambda>m.
     ebind (RawMap_from_json pz m) (\<lambda>raw_map.
     ebind (setitem json_data ''map'' raw_map) (\<lambda>json_data.
     ebind (kwargs_of json_data) (dataclass_new GameStatePayload [])))))))"

definition GameEndPayload_from_json :: "pyval \<Rightarrow> error + pyval" where
  "GameEndPayload_from_json json_data =
     ebind (getitem json_data ''players'') (\<lambda>ps.
     ebind (tuple_of (\<lambda>player. ebind (kwargs_of player) (dataclass_new RawPlayer [])) ps)
       (\<lambda>players.
     ebind (setitem json_data ''players'' players) (\<lambda>json_data.
     ebind (kwargs_of json_data) (dataclass_new GameEndPayload []))))"

section \<open>Pascal case for snake-case tags\<close>

text \<open>The first letter of a word in upper case, and the words between underscores.\<close>

definition upper_char :: "char \<Rightarrow> char" where
  "upper_char c =
     (case map_of (zip ''abcdefghijklmnopqrstuvwxyz'' ''ABCDEFGHIJKLMNOPQRSTUVWXYZ'') c of
        None \<Rightarrow> c | Some u \<Rightarrow> u)"

fun capitalize :: "string \<Rightarrow> string" where
  "capitalize [] = []"
| "capitalize (c # cs) = upper_char c # cs"

fun snake_words :: "string \<Rightarrow> string list" where
  "snake_words [] = [[]]"
| "snake_words (c # cs) =
     (if c = CHR ''_'' then [] # snake_words cs
      else (case snake_words cs of w # ws \<Rightarrow> (c # w) # ws | [] \<Rightarrow> [[c]]))"

text \<open>
  Modelled from the spec: \<^verbatim>\<open>humps.pascalize\<close> belongs to the library \<^verbatim>\<open>pyhumps\<close>, which
  is no part of the repository. The spec has the wire tag (snake case) transformed to
  a Pascal-case name: the words between underscores, each with its first letter in
  upper case, joined. The general theorems below hold for every \<open>pz\<close>; this function
  gives the concrete instances, on snake-case tags (lower-case words separated by
  single underscores).
\<close>

definition pascalize :: "string \<Rightarrow> string" where
  "pascalize s = concat (map capitalize (snake_words s))"

text \<open>
  The instance of the parameter \<open>pz\<close> in the concrete examples, which all have string
  tags. What the library does with a tag that is no string is not modelled: the
  instance gives an error there, and no statement below depends on it.
\<close>

fun pascalize_tag :: "pyval \<Rightarrow> error + string" where
  "pascalize_tag (PStr s) = Inr (pascalize s)"
| "pascalize_tag v = Inl (AttributeError ''isupper'')"

text \<open>What the decoder needs of \<^verbatim>\<open>humps.pascalize\<close> on the three occupant tags.\<close>

definition pascalizes_tags :: "(pyval \<Rightarrow> error + string) \<Rightarrow> bool" where
  "pascalizes_tags pz =
     (pz (PStr ''wall'') = Inr ''Wall'' \<and> pz (PStr ''bullet'') = Inr ''Bullet'' \<and>
      pz (PStr ''tank'') = Inr ''Tank'')"

text \<open>
  The keyword arguments a class's constructor accepts: every key is a field and every
  field without a default has a key. The optional fields are those with a default.
\<close>

definition binds :: "pyclass \<Rightarrow> (string \<times> pyval) list \<Rightarrow> bool" where
  "binds c kw =
     (fst ` set kw \<subseteq> fst ` set (fields c) \<and>
      (\<forall>f\<in>set (fields c). snd f = None \<longrightarrow> fst f \<in> fst ` set kw))"

definition optional :: "pyclass \<Rightarrow> string list" where
  "optional c = map fst (filter (\<lambda>f. snd f \<noteq> None) (fields c))"

section \<open>The tank protocols of \<^verbatim>\<open>protocols.py\<close>\<close>

text \<open>
  \<open>PlayerTank\<close> and \<open>AgentTank\<close> are \<^verbatim>\<open>runtime_checkable\<close> protocols. The members of a
  protocol are its annotated attributes and its properties; the attributes named
  \<^verbatim>\<open>__instancecheck_...__\<close> are the markers that tell apart classes of the same shape.
\<close>

datatype protocol = PlayerTank | AgentTank

fun protocol_attrs :: "protocol \<Rightarrow> string list" where
  "protocol_attrs PlayerTank =
     [''__instancecheck_tank__'', ''owner_id'', ''direction'', ''turret'']"
| "protocol_attrs AgentTank =
     [''__instancecheck_tank__'', ''__instancecheck_agenttank__'',
      ''owner_id'', ''direction'', ''turret'', ''health'']"

definition is_marker :: "string \<Rightarrow> bool" where
  "is_marker a = (take 16 a = ''__instancecheck_'')"

definition markers :: "protocol \<Rightarrow> string list" where
  "markers p = filter is_marker (protocol_attrs p)"

text \<open>
  The structural test of \<^verbatim>\<open>isinstance(obj, P)\<close> for a runtime-checkable protocol with
  data members: the object has every member of the protocol. An object is given by
  the names of the attributes it has.
\<close>

definition isinstance_protocol :: "string list \<Rightarrow> protocol \<Rightarrow> bool" where
  "isinstance_protocol attrs p = list_all (\<lambda>a. a \<in> set attrs) (protocol_attrs p)"

definition has_markers :: "string list \<Rightarrow> protocol \<Rightarrow> bool" where
  "has_markers attrs p = list_all (\<lambda>a. a \<in> set attrs) (markers p)"

section \<open>Frozen instances\<close>

text \<open>\<^verbatim>\<open>type(value) is cls\<close>.\<close>

fun instance_of :: "pyval \<Rightarrow> pyclass \<Rightarrow> bool" where
  "instance_of (PObj c fs) cls = (c = cls)"
| "instance_of v cls = False"

text \<open>Every instance inside a value, at any depth, belongs to a frozen class.\<close>

fun records_frozen :: "pyval \<Rightarrow> bool" where
  "records_frozen (PObj c fs) = (frozen c \<and> (\<forall>kv\<in>set fs. records_frozen (snd kv)))"
| "records_frozen (PList xs) = (\<forall>x\<in>set xs. records_frozen x)"
| "records_frozen (PTuple xs) = (\<forall>x\<in>set xs. records_frozen x)"
| "records_frozen (PDict d) = (\<forall>kv\<in>set d. records_frozen (snd kv))"
| "records_frozen v = True"

text \<open>A tree as a JSON parser returns it: no tuples and no instances.\<close>

fun is_json :: "pyval \<Rightarrow> bool" where
  "is_json (PObj c fs) = False"
| "is_json (PTuple xs) = False"
| "is_json (PList xs) = (\<forall>x\<in>set xs. is_json x)"
| "is_json (PDict d) = (\<forall>kv\<in>set d. is_json (snd kv))"
| "is_json v = True"

text \<open>
  The decoders of the module, each with the class of the record it returns. The server
  settings have no \<^verbatim>\<open>from_json\<close>: the lobby decoder calls the constructor on the
  sub-object.
\<close>

definition decoders :: "(pyval \<Rightarrow> error + string) \<Rightarrow> ((pyval \<Rightarrow> error + pyval) \<times> pyclass) list" where
  "decoders pz =
     [(\<lambda>json_data. ebind (kwargs_of json_data) (dataclass_new ServerSettings []), ServerSettings),
      (RawPlayer_from_json, RawPlayer),
      (RawMap_from_json pz, RawMap),
      (RawTileObject_from_json pz, RawTileObject),
      (RawWall_from_json, RawWall),
      (RawBullet_from_json, RawBullet),
      (RawTank_from_json, RawTank),
      (RawTurret_from_json, RawTurret),
      (RawZone_from_json, RawZone),
      (ConnectionRejectedPayload_from_json, ConnectionRejectedPayload),
      (LobbyDataPayload_from_json, LobbyDataPayload),
      (GameStatePayload_from_json pz, GameStatePayload),
      (GameEndPayload_from_json, GameEndPayload)]"


section \<open>Basic facts\<close>

lemma ebind_Inr [simp]: "ebind (Inr v) f = f v"
  by (simp add: ebind_def)

lemma ebind_Inl [simp]: "ebind (Inl e) f = Inl e"
  by (simp add: ebind_def)

lemma pascalize_tags:
  "pascalize ''wall'' = ''Wall''" "pascalize ''bullet'' = ''Bullet''"
  "pascalize ''tank'' = ''Tank''" "pascalize ''drone'' = ''Drone''"
  "pascalize ''tile_entity'' = ''TileEntity''"
  by (simp_all add: pascalize_def upper_char_def)

lemma pascalizes_tags_pascalize_tag: "pascalizes_tags pascalize_tag"
  by (simp add: pascalizes_tags_def pascalize_tags)

lemma self_not_field: "''self'' \<notin> set (map fst (fields c))"
  by (cases c) simp_all

lemma bad_keyword_no_positional:
  "''self'' \<notin> set names \<Longrightarrow>
   bad_keyword (''self'' # names) [''self''] ks =
     (case find (\<lambda>k. k \<notin> set names) ks of
        None \<Rightarrow> None
      | Some k \<Rightarrow> Some (if k = ''self'' then MultipleValues k else UnexpectedKeyword k))"
  by (induction ks) auto

lemma map_of_delete_other: "k \<noteq> k' \<Longrightarrow> map_of (AList.delete k d) k' = map_of d k'"
  by (simp add: delete_conv')

lemma globals_get_entities:
  "globals_get ''RawWall'' = Some RawWall" "globals_get ''RawBullet'' = Some RawBullet"
  "globals_get ''RawTank'' = Some RawTank"
  "globals_get ''RawTileEntity'' = Some RawTileEntity"
  by (simp_all add: globals_get_def)

lemma issubclass_entities:
  "issubclass RawWall RawTileEntity" "issubclass RawBullet RawTileEntity"
  "issubclass RawTank RawTileEntity" "issubclass RawTileEntity RawTileEntity"
  by (simp_all add: issubclass_def)

section \<open>Tile occupants\<close>

lemma RawWall_from_json_empty: "RawWall_from_json (PDict []) = Inr (PObj RawWall [])"
  by (simp add: RawWall_from_json_def dataclass_new_def)

lemma RawBullet_from_json_empty:
  "RawBullet_from_json (PDict []) = Inl (TypeError (MissingArguments [''id'']))"
  by (simp add: RawBullet_from_json_def dataclass_new_def bound_value_def)

lemma RawTank_from_json_empty: "RawTank_from_json (PDict []) = Inl (KeyError ''turret'')"
  by (simp add: RawTank_from_json_def)

lemma RawTileObject_new:
  "dataclass_new RawTileObject [t, e] [] =
     Inr (PObj RawTileObject [(''type'', t), (''entity'', e)])"
  by (simp add: dataclass_new_def bound_value_def)

text \<open>
  Once the class found under the derived name passes the subclass test, the occupant
  is that class's decoder applied to the payload (an empty dictionary when the key is
  missing), wrapped with the tag as it came.
\<close>

lemma RawTileObject_from_json_known:
  assumes "map_of d ''type'' = Some t" and "pz t = Inr p"
    and "globals_get (''Raw'' @ p) = Some c" and "issubclass c RawTileEntity"
  shows "RawTileObject_from_json pz (PDict d) =
     ebind (entity_from_json c (case map_of d ''payload'' of None \<Rightarrow> PDict [] | Some v \<Rightarrow> v))
       (\<lambda>entity. Inr (PObj RawTileObject [(''type'', t), (''entity'', entity)]))"
  using assms
  by (simp add: RawTileObject_from_json_def map_of_delete_other RawTileObject_new)

text \<open>
  C10. An occupant object without a \<^verbatim>\<open>payload\<close> key decodes its entity from an empty
  dictionary: with the tag \<^verbatim>\<open>wall\<close> the result is an occupant holding a wall, with the
  tag \<^verbatim>\<open>bullet\<close> the constructor misses its required \<^verbatim>\<open>id\<close>, and with the tag
  \<^verbatim>\<open>tank\<close> the lookup of \<^verbatim>\<open>turret\<close> fails.
\<close>

theorem occupant_without_payload:
  assumes "pascalizes_tags pz" and "map_of d ''type'' = Some (PStr tag)"
    and "map_of d ''payload'' = None"
  shows "(tag = ''wall'' \<longrightarrow> RawTileObject_from_json pz (PDict d) =
            Inr (PObj RawTileObject [(''type'', PStr ''wall''), (''entity'', PObj RawWall [])]))
       \<and> (tag = ''bullet'' \<longrightarrow> RawTileObject_from_json pz (PDict d) =
            Inl (TypeError (MissingArguments [''id''])))
       \<and> (tag = ''tank'' \<longrightarrow> RawTileObject_from_json pz (PDict d) = Inl (KeyError ''turret''))"
proof (intro conjI impI)
  assume "tag = ''wall''"
  with assms have "pz (PStr tag) = Inr ''Wall''" by (simp add: pascalizes_tags_def)
  from RawTileObject_from_json_known [of d "PStr tag" pz "''Wall''" RawWall] assms(2,3) this
    \<open>tag = ''wall''\<close>
  show "RawTileObject_from_json pz (PDict d) =
            Inr (PObj RawTileObject [(''type'', PStr ''wall''), (''entity'', PObj RawWall [])])"
    by (simp add: globals_get_entities issubclass_entities RawWall_from_json_empty)
next
  assume "tag = ''bullet''"
  with assms have "pz (PStr tag) = Inr ''Bullet''" by (simp add: pascalizes_tags_def)
  from RawTileObject_from_json_known [of d "PStr tag" pz "''Bullet''" RawBullet] assms(2,3) this
  show "RawTileObject_from_json pz (PDict d) = Inl (TypeError (MissingArguments [''id'']))"
    by (simp add: globals_get_entities issubclass_entities RawBullet_from_json_empty)
next
  assume "tag = ''tank''"
  with assms have "pz (PStr tag) = Inr ''Tank''" by (simp add: pascalizes_tags_def)
  from RawTileObject_from_json_known [of d "PStr tag" pz "''Tank''" RawTank] assms(2,3) this
  show "RawTileObject_from_json pz (PDict d) = Inl (KeyError ''turret'')"
    by (simp add: globals_get_entities issubclass_entities RawTank_from_json_empty)
qed

theorem occupant_without_payload_witness:
  "RawTileObject_from_json pascalize_tag (PDict [(''type'', PStr ''wall'')]) =
       Inr (PObj RawTileObject [(''type'', PStr ''wall''), (''entity'', PObj RawWall [])])
   \<and> RawTileObject_from_json pascalize_tag (PDict [(''type'', PStr ''bullet'')]) =
       Inl (TypeError (MissingArguments [''id'']))
   \<and> RawTileObject_from_json pascalize_tag (PDict [(''type'', PStr ''tank'')]) =
       Inl (KeyError ''turret'')"
  using occupant_without_payload [of pascalize_tag "[(''type'', PStr ''wall'')]" "''wall''"]
    occupant_without_payload [of pascalize_tag "[(''type'', PStr ''bullet'')]" "''bullet''"]
    occupant_without_payload [of pascalize_tag "[(''type'', PStr ''tank'')]" "''tank''"]
  by (simp add: pascalizes_tags_pascalize_tag)

lemma RawTank_from_json_turret_first:
  "RawTank_from_json (PDict t) =
     (case map_of t ''turret'' of
        None \<Rightarrow> Inl (KeyError ''turret'')
      | Some tj \<Rightarrow> ebind (RawTurret_from_json tj)
          (\<lambda>turret. dataclass_new RawTank [] (AList.update ''turret'' turret t)))"
  by (simp add: RawTank_from_json_def split: option.split)

text \<open>
  C6. For the tags \<^verbatim>\<open>wall\<close>, \<^verbatim>\<open>bullet\<close> and \<^verbatim>\<open>tank\<close> the occupant decoder runs
  exactly the decoder of \<open>RawWall\<close>, \<open>RawBullet\<close> and \<open>RawTank\<close> on the payload
  sub-object and wraps its result with the tag; the tank decoder looks the turret up
  and decodes it with the turret decoder before it constructs the tank, so a turret
  that fails to decode fails the tank with the turret's error.
\<close>

theorem occupant_tag_dispatch:
  assumes "pascalizes_tags pz" and "map_of d ''type'' = Some (PStr tag)"
    and "tag \<in> {''wall'', ''bullet'', ''tank''}"
  shows "RawTileObject_from_json pz (PDict d) =
       ebind ((if tag = ''wall'' then RawWall_from_json
               else if tag = ''bullet'' then RawBullet_from_json
               else RawTank_from_json)
              (case map_of d ''payload'' of None \<Rightarrow> PDict [] | Some v \<Rightarrow> v))
         (\<lambda>entity. Inr (PObj RawTileObject [(''type'', PStr tag), (''entity'', entity)]))
     \<and> RawTank_from_json (PDict t) =
       (case map_of t ''turret'' of
          None \<Rightarrow> Inl (KeyError ''turret'')
        | Some tj \<Rightarrow> ebind (RawTurret_from_json tj)
            (\<lambda>turret. dataclass_new RawTank [] (AList.update ''turret'' turret t)))"
proof
  from assms(3) consider "tag = ''wall''" | "tag = ''bullet''" | "tag = ''tank''" by auto
  then show "RawTileObject_from_json pz (PDict d) =
       ebind ((if tag = ''wall'' then RawWall_from_json
               else if tag = ''bullet'' then RawBullet_from_json
               else RawTank_from_json)
              (case map_of d ''payload'' of None \<Rightarrow> PDict [] | Some v \<Rightarrow> v))
         (\<lambda>entity. Inr (PObj RawTileObject [(''type'', PStr tag), (''entity'', entity)]))"
  proof cases
    case 1
    with assms(1) have "pz (PStr tag) = Inr ''Wall''" by (simp add: pascalizes_tags_def)
    from RawTileObject_from_json_known [of d "PStr tag" pz "''Wall''" RawWall] assms(2) this 1
    show ?thesis by (simp add: globals_get_entities issubclass_entities)
  next
    case 2
    with assms(1) have "pz (PStr tag) = Inr ''Bullet''" by (simp add: pascalizes_tags_def)
    from RawTileObject_from_json_known [of d "PStr tag" pz "''Bullet''" RawBullet] assms(2) this 2
    show ?thesis by (simp add: globals_get_entities issubclass_entities)
  next
    case 3
    with assms(1) have "pz (PStr tag) = Inr ''Tank''" by (simp add: pascalizes_tags_def)
    from RawTileObject_from_json_known [of d "PStr tag" pz "''Tank''" RawTank] assms(2) this 3
    show ?thesis by (simp add: globals_get_entities issubclass_entities)
  qed
next
  show "RawTank_from_json (PDict t) =
       (case map_of t ''turret'' of
          None \<Rightarrow> Inl (KeyError ''turret'')
        | Some tj \<Rightarrow> ebind (RawTurret_from_json tj)
            (\<lambda>turret. dataclass_new RawTank [] (AList.update ''turret'' turret t)))"
    by (rule RawTank_from_json_turret_first)
qed

lemma RawTurret_from_json_direction:
  "RawTurret_from_json (PDict [(''direction'', v)]) =
     Inr (PObj RawTurret [(''direction'', v), (''bullet_count'', PNone),
            (''ticks_to_regen_bullet'', PNone)])"
  by (simp add: RawTurret_from_json_def dataclass_new_def bound_value_def)

theorem occupant_tag_dispatch_witness:
  "RawTileObject_from_json pascalize_tag
     (PDict [(''type'', PStr ''tank''),
             (''payload'', PDict [(''owner_id'', PStr ''p1''), (''direction'', PInt 0),
                                  (''turret'', PDict [(''direction'', PInt 1)])])]) =
   Inr (PObj RawTileObject
     [(''type'', PStr ''tank''),
      (''entity'', PObj RawTank
         [(''owner_id'', PStr ''p1''), (''direction'', PInt 0),
          (''turret'', PObj RawTurret [(''direction'', PInt 1), (''bullet_count'', PNone),
                                       (''ticks_to_regen_bullet'', PNone)]),
          (''health'', PNone)])])"
  using occupant_tag_dispatch [of pascalize_tag
     "[(''type'', PStr ''tank''),
       (''payload'', PDict [(''owner_id'', PStr ''p1''), (''direction'', PInt 0),
                            (''turret'', PDict [(''direction'', PInt 1)])])]" "''tank''"
     "[(''owner_id'', PStr ''p1''), (''direction'', PInt 0),
                            (''turret'', PDict [(''direction'', PInt 1)])]"]
  by (simp add: pascalizes_tags_pascalize_tag RawTurret_from_json_direction
        dataclass_new_def bound_value_def)

text \<open>
  A tag whose derived class name is none of the four entity classes is refused, and the
  message of the error carries the derived class name.
\<close>

lemma RawTileObject_from_json_unknown:
  assumes "map_of d ''type'' = Some t" and "pz t = Inr p"
    and "''Raw'' @ p \<notin> {''RawTileEntity'', ''RawWall'', ''RawBullet'', ''RawTank''}"
  shows "RawTileObject_from_json pz (PDict d) =
           Inl (ValueError (''Unknown tile object class: Raw'' @ p))"
proof -
  have "case globals_get (''Raw'' @ p) of None \<Rightarrow> True | Some c \<Rightarrow> \<not> issubclass c RawTileEntity"
    using assms(3) by (auto simp add: globals_get_def issubclass_def)
  with assms(1,2) show ?thesis
    by (simp add: RawTileObject_from_json_def split: option.splits)
qed

lemma drone_rejected:
  "RawTileObject_from_json pascalize_tag (PDict [(''type'', PStr ''drone''), (''payload'', PDict [])]) =
     Inl (ValueError ''Unknown tile object class: RawDrone'')"
  using RawTileObject_from_json_unknown [of "[(''type'', PStr ''drone''), (''payload'', PDict [])]"
      "PStr ''drone''" pascalize_tag "''Drone''"]
  by (simp add: pascalize_tags)

text \<open>
  The abstract base class passes the subclass test as well, since a class is a subclass
  of itself; its \<^verbatim>\<open>from_json\<close> returns \<^verbatim>\<open>None\<close>, which becomes the entity.
\<close>

lemma RawTileObject_from_json_base_class:
  assumes "map_of d ''type'' = Some t" and "pz t = Inr ''TileEntity''"
  shows "RawTileObject_from_json pz (PDict d) =
           Inr (PObj RawTileObject [(''type'', t), (''entity'', PNone)])"
  using RawTileObject_from_json_known [of d t pz "''TileEntity''" RawTileEntity] assms
  by (simp add: globals_get_entities issubclass_entities RawTileEntity_from_json_def)

text \<open>
  C4. The tag \<^verbatim>\<open>tile_entity\<close> lies outside wall, bullet and tank, and yet the occupant
  decoder accepts it: it returns an occupant record whose entity is \<^verbatim>\<open>None\<close> instead of
  raising the error for an unknown tile object class.
\<close>

theorem tile_entity_tag_decodes:
  "RawTileObject_from_json pascalize_tag
     (PDict [(''type'', PStr ''tile_entity''), (''payload'', PDict [])]) =
   Inr (PObj RawTileObject [(''type'', PStr ''tile_entity''), (''entity'', PNone)])"
  by (simp add: RawTileObject_from_json_base_class pascalize_tags)

section \<open>Construction from keyword arguments\<close>

lemma distinct_fields: "distinct (map fst (fields c))"
  by (cases c) simp_all

lemma fields_default_None: "f \<in> set (fields c) \<Longrightarrow> snd f = None \<or> snd f = Some PNone"
  by (cases c) auto

lemma map_of_map_fields:
  "distinct (map fst fs) \<Longrightarrow> f \<in> set fs \<Longrightarrow>
     map_of (map (\<lambda>f. (fst f, g f)) fs) (fst f) = Some (g f)"
  by (induction fs) (auto simp add: rev_image_eqI)

text \<open>
  When every key is a field and every field without a default has a key, the
  constructor succeeds: each field takes the value under its key, or its default.
\<close>

lemma dataclass_new_kwargs:
  assumes "\<not> abstract c" and "fst ` set kw \<subseteq> fst ` set (fields c)"
    and "\<forall>f\<in>set (fields c). snd f = None \<longrightarrow> fst f \<in> fst ` set kw"
  shows "dataclass_new c [] kw =
     Inr (PObj c (map (\<lambda>f. (fst f, case map_of kw (fst f) of Some v \<Rightarrow> v
                                   | None \<Rightarrow> (case snd f of Some dv \<Rightarrow> dv | None \<Rightarrow> PNone)))
            (fields c)))"
proof -
  have nobad: "bad_keyword (''self'' # map fst (fields c)) [''self''] (map fst kw) = None"
    using assms(2)
    by (auto simp add: bad_keyword_no_positional [OF self_not_field] find_None_iff
          split: option.split)
  have bound: "bound_value kw f \<noteq> None" if "f \<in> set (fields c)" for f
  proof (cases "snd f")
    case None
    with assms(3) that have "fst f \<in> fst ` set kw" by simp
    then have "map_of kw (fst f) \<noteq> None" by (simp add: map_of_eq_None_iff)
    then show ?thesis by (auto simp add: bound_value_def)
  next
    case (Some dv)
    then show ?thesis by (simp add: bound_value_def split: option.split)
  qed
  then have nomissing: "filter (\<lambda>f. bound_value kw f = None) (fields c) = []"
    by (simp add: filter_empty_conv)
  have vals: "map (\<lambda>f. (fst f, case bound_value kw f of Some v \<Rightarrow> v | None \<Rightarrow> PNone)) (fields c)
      = map (\<lambda>f. (fst f, case map_of kw (fst f) of Some v \<Rightarrow> v
                                   | None \<Rightarrow> (case snd f of Some dv \<Rightarrow> dv | None \<Rightarrow> PNone)))
            (fields c)"
    by (rule map_cong) (auto simp add: bound_value_def split: option.split)
  show ?thesis
    using assms(1) nobad nomissing vals by (simp add: dataclass_new_def)
qed

text \<open>
  A key that is no field makes the constructor raise, whatever else is there: the key
  is an unexpected keyword, or, when it is \<^verbatim>\<open>self\<close>, a second value for the instance.
\<close>

lemma dataclass_new_unexpected:
  assumes "\<not> abstract c" and "k \<in> fst ` set kw" and "k \<notin> fst ` set (fields c)"
  shows "\<exists>k'\<in>fst ` set kw. k' \<notin> fst ` set (fields c) \<and>
           dataclass_new c [] kw =
             Inl (TypeError (if k' = ''self'' then MultipleValues k' else UnexpectedKeyword k'))"
proof -
  from assms(2,3) have "find (\<lambda>k. k \<notin> set (map fst (fields c))) (map fst kw) \<noteq> None"
    by (auto simp add: find_None_iff)
  then obtain k' where f: "find (\<lambda>k. k \<notin> set (map fst (fields c))) (map fst kw) = Some k'"
    by auto
  then have "k' \<in> fst ` set kw" and "k' \<notin> fst ` set (fields c)"
    by (auto simp add: find_Some_iff)
  moreover from f assms(1) have "dataclass_new c [] kw =
      Inl (TypeError (if k' = ''self'' then MultipleValues k' else UnexpectedKeyword k'))"
    by (simp add: dataclass_new_def bad_keyword_no_positional [OF self_not_field])
  ultimately show ?thesis by blast
qed

lemma dataclass_new_missing_default:
  assumes "\<not> abstract c" and "fst ` set kw \<subseteq> fst ` set (fields c)"
    and "\<forall>f\<in>set (fields c). snd f = None \<longrightarrow> fst f \<in> fst ` set kw"
  shows "\<exists>r. dataclass_new c [] kw = Inr r \<and>
           (\<forall>f\<in>set (fields c). py_getattr r (fst f) =
               Inr (case map_of kw (fst f) of Some v \<Rightarrow> v | None \<Rightarrow> PNone))"
proof -
  let ?g = "\<lambda>f. case map_of kw (fst f) of Some v \<Rightarrow> v
                                   | None \<Rightarrow> (case snd f of Some dv \<Rightarrow> dv | None \<Rightarrow> PNone)"
  have "py_getattr (PObj c (map (\<lambda>f. (fst f, ?g f)) (fields c))) (fst f) =
          Inr (case map_of kw (fst f) of Some v \<Rightarrow> v | None \<Rightarrow> PNone)"
    if "f \<in> set (fields c)" for f
    using that fields_default_None [OF that]
    by (auto simp add: map_of_map_fields [OF distinct_fields that] split: option.split)
  with dataclass_new_kwargs [OF assms] show ?thesis by simp
qed

lemma plain_decoder_optional:
  assumes "\<not> abstract c" and "binds c d"
  shows "\<exists>r. dataclass_new c [] d = Inr r \<and>
           (\<forall>k\<in>set (optional c). k \<notin> fst ` set d \<longrightarrow> py_getattr r k = Inr PNone)"
proof -
  from assms obtain r where r: "dataclass_new c [] d = Inr r"
    and g: "\<forall>f\<in>set (fields c). py_getattr r (fst f) =
               Inr (case map_of d (fst f) of Some v \<Rightarrow> v | None \<Rightarrow> PNone)"
    using dataclass_new_missing_default [of c d] by (auto simp add: binds_def)
  have "py_getattr r k = Inr PNone" if "k \<in> set (optional c)" and "k \<notin> fst ` set d" for k
  proof -
    from that(1) obtain f where "f \<in> set (fields c)" and "k = fst f"
      by (auto simp add: optional_def)
    with g that(2) show ?thesis by (simp add: map_of_eq_None_iff [THEN iffD2])
  qed
  with r show ?thesis by blast
qed

section \<open>Zones\<close>

lemma keys_delete: "fst ` set (AList.delete k al) = fst ` set al - {k}"
  by (induction al) auto

lemma binds_RawZone_iff:
  "binds RawZone kw \<longleftrightarrow>
     fst ` set kw \<subseteq> {''x'', ''y'', ''width'', ''height'', ''index'', ''status'', ''player_id'',
        ''captured_by_id'', ''retaken_by_id'', ''remaining_ticks''} \<and>
     {''x'', ''y'', ''width'', ''height'', ''index'', ''status''} \<subseteq> fst ` set kw"
  by (auto simp add: binds_def)

text \<open>
  The zone decoder moves the tag of the status sub-object to the field \<^verbatim>\<open>status\<close> and
  copies the four status entries with \<^verbatim>\<open>status.get(key, None)\<close>, whatever the tag is.
\<close>

lemma RawZone_from_json_fields:
  assumes "binds RawZone z" and "map_of z ''status'' = Some (PDict st)"
    and "map_of st ''type'' = Some tag"
  shows "\<exists>r. RawZone_from_json (PDict z) = Inr r \<and> py_getattr r ''status'' = Inr tag \<and>
           (\<forall>k\<in>{''player_id'', ''captured_by_id'', ''retaken_by_id'', ''remaining_ticks''}.
              py_getattr r k = Inr (case map_of st k of None \<Rightarrow> PNone | Some v \<Rightarrow> v))"
proof -
  define g where "g k = (case map_of st k of None \<Rightarrow> PNone | Some v \<Rightarrow> v)" for k
  define kw where "kw =
     AList.update ''remaining_ticks'' (g ''remaining_ticks'')
       (AList.update ''retaken_by_id'' (g ''retaken_by_id'')
         (AList.update ''captured_by_id'' (g ''captured_by_id'')
           (AList.update ''player_id'' (g ''player_id'')
             (AList.update ''status'' tag (AList.delete ''status'' z)))))"
  have dec: "RawZone_from_json (PDict z) = dataclass_new RawZone [] kw"
    using assms(2,3) by (simp add: RawZone_from_json_def kw_def g_def)
  have keys: "fst ` set kw = insert ''remaining_ticks'' (insert ''retaken_by_id''
       (insert ''captured_by_id'' (insert ''player_id'' (insert ''status''
          (fst ` set z - {''status''})))))"
    by (auto simp add: kw_def dom_update keys_delete)
  have b: "binds RawZone kw"
    using assms(1) unfolding binds_RawZone_iff keys by auto
  from dataclass_new_missing_default [of RawZone kw] b
  obtain r where r: "dataclass_new RawZone [] kw = Inr r"
    and a: "\<forall>f\<in>set (fields RawZone). py_getattr r (fst f) =
               Inr (case map_of kw (fst f) of Some v \<Rightarrow> v | None \<Rightarrow> PNone)"
    by (auto simp add: binds_def)
  from a have "py_getattr r ''status'' = Inr tag"
    and "py_getattr r ''player_id'' = Inr (g ''player_id'')"
    and "py_getattr r ''captured_by_id'' = Inr (g ''captured_by_id'')"
    and "py_getattr r ''retaken_by_id'' = Inr (g ''retaken_by_id'')"
    and "py_getattr r ''remaining_ticks'' = Inr (g ''remaining_ticks'')"
    by (simp_all add: kw_def update_conv')
  with dec r show ?thesis by (simp add: g_def)
qed

text \<open>
  C1, as amended. For every zone input that decodes (the keys of the zone are fields of
  \<open>RawZone\<close>, the rectangle, the index and the status are there, and the status
  sub-object has a tag), each of \<^verbatim>\<open>player_id\<close>, \<^verbatim>\<open>captured_by_id\<close>, \<^verbatim>\<open>retaken_by_id\<close> and
  \<^verbatim>\<open>remaining_ticks\<close> of the record is \<^verbatim>\<open>None\<close> when the status sub-object has no such
  key, and is the entry of the sub-object when it has one, whatever the tag is.
\<close>

theorem zone_status_fields_copied:
  assumes "binds RawZone z" and "map_of z ''status'' = Some (PDict st)"
    and "map_of st ''type'' = Some tag"
  shows "\<exists>r. RawZone_from_json (PDict z) = Inr r \<and>
           (\<forall>k\<in>{''player_id'', ''captured_by_id'', ''retaken_by_id'', ''remaining_ticks''}.
              (k \<notin> fst ` set st \<longrightarrow> py_getattr r k = Inr PNone) \<and>
              (\<forall>v. map_of st k = Some v \<longrightarrow> py_getattr r k = Inr v))"
proof -
  from RawZone_from_json_fields [OF assms] obtain r
    where r: "RawZone_from_json (PDict z) = Inr r"
      and g: "\<forall>k\<in>{''player_id'', ''captured_by_id'', ''retaken_by_id'', ''remaining_ticks''}.
              py_getattr r k = Inr (case map_of st k of None \<Rightarrow> PNone | Some v \<Rightarrow> v)"
    by blast
  have "(k \<notin> fst ` set st \<longrightarrow> py_getattr r k = Inr PNone) \<and>
        (\<forall>v. map_of st k = Some v \<longrightarrow> py_getattr r k = Inr v)"
    if "k \<in> {''player_id'', ''captured_by_id'', ''retaken_by_id'', ''remaining_ticks''}" for k
  proof -
    from g that have "py_getattr r k = Inr (case map_of st k of None \<Rightarrow> PNone | Some v \<Rightarrow> v)"
      by blast
    then show ?thesis by (auto simp add: map_of_eq_None_iff [THEN iffD2])
  qed
  with r show ?thesis by blast
qed

theorem zone_status_fields_copied_witness:
  "\<exists>r. RawZone_from_json
      (PDict [(''x'', PInt 0), (''y'', PInt 0), (''width'', PInt 1), (''height'', PInt 1),
              (''index'', PInt 0), (''status'', PDict [(''type'', PStr ''neutral'')])]) = Inr r
     \<and> py_getattr r ''player_id'' = Inr PNone \<and> py_getattr r ''captured_by_id'' = Inr PNone
     \<and> py_getattr r ''retaken_by_id'' = Inr PNone \<and> py_getattr r ''remaining_ticks'' = Inr PNone"
  using zone_status_fields_copied [of
      "[(''x'', PInt 0), (''y'', PInt 0), (''width'', PInt 1), (''height'', PInt 1),
        (''index'', PInt 0), (''status'', PDict [(''type'', PStr ''neutral'')])]"
      "[(''type'', PStr ''neutral'')]" "PStr ''neutral''"]
  by (simp add: binds_RawZone_iff)

text \<open>
  C1 as stated fails: a \<^verbatim>\<open>being_captured\<close> status that carries \<^verbatim>\<open>retaken_by_id\<close> decodes
  to a record with that value, and a \<^verbatim>\<open>neutral\<close> status that carries \<^verbatim>\<open>player_id\<close> to a
  record with that player.
\<close>

theorem zone_status_fields_counterexample:
  "ebind (RawZone_from_json
      (PDict [(''x'', PInt 0), (''y'', PInt 0), (''width'', PInt 1), (''height'', PInt 1),
              (''index'', PInt 0),
              (''status'', PDict [(''type'', PStr ''being_captured''), (''player_id'', PStr ''p1''),
                                 (''remaining_ticks'', PInt 5), (''retaken_by_id'', PStr ''p2'')])]))
     (\<lambda>r. py_getattr r ''retaken_by_id'') = Inr (PStr ''p2'')
   \<and> ebind (RawZone_from_json
      (PDict [(''x'', PInt 0), (''y'', PInt 0), (''width'', PInt 1), (''height'', PInt 1),
              (''index'', PInt 0),
              (''status'', PDict [(''type'', PStr ''neutral''), (''player_id'', PStr ''p1'')])]))
     (\<lambda>r. py_getattr r ''player_id'') = Inr (PStr ''p1'')"
  by (simp add: RawZone_from_json_def dataclass_new_def bound_value_def)

section \<open>Plain records\<close>

lemma RawPlayer_from_json_dict: "RawPlayer_from_json (PDict d) = dataclass_new RawPlayer [] d"
  by (simp add: RawPlayer_from_json_def)

lemma RawBullet_from_json_dict: "RawBullet_from_json (PDict d) = dataclass_new RawBullet [] d"
  by (simp add: RawBullet_from_json_def)

lemma RawTurret_from_json_dict: "RawTurret_from_json (PDict d) = dataclass_new RawTurret [] d"
  by (simp add: RawTurret_from_json_def)

text \<open>
  C5, as amended. A player or bullet input with a key outside the record's field set
  fails to decode, whether or not the required fields are present: the constructor
  raises a type error for a key of the input that is no field, which it reports as an
  unexpected keyword argument, or, when that key is \<^verbatim>\<open>self\<close>, as a second value for the
  argument \<^verbatim>\<open>self\<close>. Unknown extra fields are errors.
\<close>

theorem extra_keys_are_errors:
  assumes "k \<in> fst ` set d"
  shows "(k \<notin> {''id'', ''nickname'', ''color'', ''score'', ''ping'', ''ticks_to_regen''} \<longrightarrow>
            (\<exists>k'\<in>fst ` set d.
               k' \<notin> {''id'', ''nickname'', ''color'', ''score'', ''ping'', ''ticks_to_regen''} \<and>
               RawPlayer_from_json (PDict d) =
                 Inl (TypeError (if k' = ''self'' then MultipleValues k'
                                 else UnexpectedKeyword k'))))
       \<and> (k \<notin> {''id'', ''speed'', ''direction''} \<longrightarrow>
            (\<exists>k'\<in>fst ` set d.
               k' \<notin> {''id'', ''speed'', ''direction''} \<and>
               RawBullet_from_json (PDict d) =
                 Inl (TypeError (if k' = ''self'' then MultipleValues k'
                                 else UnexpectedKeyword k'))))"
  using dataclass_new_unexpected [of RawPlayer k d] dataclass_new_unexpected [of RawBullet k d] assms
  by (simp add: RawPlayer_from_json_dict RawBullet_from_json_dict)

theorem extra_keys_are_errors_witness:
  "RawPlayer_from_json (PDict [(''id'', PStr ''p1''), (''nickname'', PStr ''bot''),
       (''color'', PInt 255), (''team'', PInt 1)]) = Inl (TypeError (UnexpectedKeyword ''team''))
   \<and> RawBullet_from_json (PDict [(''id'', PInt 7), (''team'', PInt 1)]) =
       Inl (TypeError (UnexpectedKeyword ''team''))
   \<and> RawPlayer_from_json (PDict [(''id'', PStr ''p1''), (''nickname'', PStr ''bot''),
       (''color'', PInt 255), (''self'', PInt 1)]) = Inl (TypeError (MultipleValues ''self''))"
  using extra_keys_are_errors [of "''team''" "[(''id'', PStr ''p1''), (''nickname'', PStr ''bot''),
       (''color'', PInt 255), (''team'', PInt 1)]"]
    extra_keys_are_errors [of "''team''" "[(''id'', PInt 7), (''team'', PInt 1)]"]
    extra_keys_are_errors [of "''self''" "[(''id'', PStr ''p1''), (''nickname'', PStr ''bot''),
       (''color'', PInt 255), (''self'', PInt 1)]"]
  by simp

text \<open>
  C5 as stated fails: a player input with its three required fields and one more key is
  refused, while the same input without that key decodes.
\<close>

theorem extra_keys_ignored_counterexample:
  "RawPlayer_from_json (PDict [(''id'', PStr ''p1''), (''nickname'', PStr ''bot''),
       (''color'', PInt 255), (''team'', PInt 1)]) = Inl (TypeError (UnexpectedKeyword ''team''))
   \<and> RawPlayer_from_json (PDict [(''id'', PStr ''p1''), (''nickname'', PStr ''bot''),
       (''color'', PInt 255)]) =
     Inr (PObj RawPlayer [(''id'', PStr ''p1''), (''nickname'', PStr ''bot''),
       (''color'', PInt 255), (''score'', PNone), (''ping'', PNone), (''ticks_to_regen'', PNone)])"
  by (simp add: RawPlayer_from_json_def dataclass_new_def bound_value_def)

section \<open>Optional fields\<close>

lemma abstract_plain: "\<not> abstract RawPlayer" "\<not> abstract RawBullet" "\<not> abstract RawTurret"
  "\<not> abstract RawTank" "\<not> abstract RawZone"
  by simp_all

lemma RawTank_from_json_health:
  assumes "binds RawTank d" and "map_of d ''turret'' = Some tj"
    and "RawTurret_from_json tj = Inr turret" and "''health'' \<notin> fst ` set d"
  shows "\<exists>r. RawTank_from_json (PDict d) = Inr r \<and> py_getattr r ''health'' = Inr PNone"
proof -
  let ?kw = "AList.update ''turret'' turret d"
  have dec: "RawTank_from_json (PDict d) = dataclass_new RawTank [] ?kw"
    using assms(2,3) by (simp add: RawTank_from_json_turret_first)
  from assms(2) have "''turret'' \<in> fst ` set d"
    by (metis map_of_eq_None_iff option.distinct(1))
  then have keys: "fst ` set ?kw = fst ` set d" by (auto simp add: dom_update)
  with assms(1) have "binds RawTank ?kw" by (simp add: binds_def)
  from plain_decoder_optional [OF abstract_plain(4) this] keys assms(4) dec
  show ?thesis by (simp add: optional_def)
qed

text \<open>
  C8. For every raw record type with optional fields (player, turret, bullet, tank,
  zone), an input that decodes and lacks an optional field gives a record whose field
  is \<^verbatim>\<open>None\<close>, which is neither the number 0 nor the empty string. For the zone the
  optional fields are read from the status sub-object.
\<close>

theorem missing_optional_fields_are_None:
  "(binds RawPlayer p \<longrightarrow>
      (\<exists>r. RawPlayer_from_json (PDict p) = Inr r \<and>
         (\<forall>k\<in>{''score'', ''ping'', ''ticks_to_regen''}.
            k \<notin> fst ` set p \<longrightarrow> py_getattr r k = Inr PNone)))
 \<and> (binds RawTurret t \<longrightarrow>
      (\<exists>r. RawTurret_from_json (PDict t) = Inr r \<and>
         (\<forall>k\<in>{''bullet_count'', ''ticks_to_regen_bullet''}.
            k \<notin> fst ` set t \<longrightarrow> py_getattr r k = Inr PNone)))
 \<and> (binds RawBullet b \<longrightarrow>
      (\<exists>r. RawBullet_from_json (PDict b) = Inr r \<and>
         (\<forall>k\<in>{''speed'', ''direction''}.
            k \<notin> fst ` set b \<longrightarrow> py_getattr r k = Inr PNone)))
 \<and> (binds RawTank d \<and> map_of d ''turret'' = Some tj \<and> RawTurret_from_json tj = Inr turret \<and>
      ''health'' \<notin> fst ` set d \<longrightarrow>
      (\<exists>r. RawTank_from_json (PDict d) = Inr r \<and> py_getattr r ''health'' = Inr PNone))
 \<and> (binds RawZone z \<and> map_of z ''status'' = Some (PDict st) \<and> map_of st ''type'' = Some tag \<longrightarrow>
      (\<exists>r. RawZone_from_json (PDict z) = Inr r \<and>
         (\<forall>k\<in>{''player_id'', ''captured_by_id'', ''retaken_by_id'', ''remaining_ticks''}.
            k \<notin> fst ` set st \<longrightarrow> py_getattr r k = Inr PNone)))"
proof (intro conjI impI)
  assume "binds RawPlayer p"
  from plain_decoder_optional [OF abstract_plain(1) this]
  show "\<exists>r. RawPlayer_from_json (PDict p) = Inr r \<and>
         (\<forall>k\<in>{''score'', ''ping'', ''ticks_to_regen''}.
            k \<notin> fst ` set p \<longrightarrow> py_getattr r k = Inr PNone)"
    by (simp add: RawPlayer_from_json_dict optional_def)
next
  assume "binds RawTurret t"
  from plain_decoder_optional [OF abstract_plain(3) this]
  show "\<exists>r. RawTurret_from_json (PDict t) = Inr r \<and>
         (\<forall>k\<in>{''bullet_count'', ''ticks_to_regen_bullet''}.
            k \<notin> fst ` set t \<longrightarrow> py_getattr r k = Inr PNone)"
    by (simp add: RawTurret_from_json_dict optional_def)
next
  assume "binds RawBullet b"
  from plain_decoder_optional [OF abstract_plain(2) this]
  show "\<exists>r. RawBullet_from_json (PDict b) = Inr r \<and>
         (\<forall>k\<in>{''speed'', ''direction''}.
            k \<notin> fst ` set b \<longrightarrow> py_getattr r k = Inr PNone)"
    by (simp add: RawBullet_from_json_dict optional_def)
next
  assume "binds RawTank d \<and> map_of d ''turret'' = Some tj \<and> RawTurret_from_json tj = Inr turret \<and>
      ''health'' \<notin> fst ` set d"
  then show "\<exists>r. RawTank_from_json (PDict d) = Inr r \<and> py_getattr r ''health'' = Inr PNone"
    using RawTank_from_json_health [of d tj turret] by blast
next
  assume a: "binds RawZone z \<and> map_of z ''status'' = Some (PDict st) \<and> map_of st ''type'' = Some tag"
  then obtain r where r: "RawZone_from_json (PDict z) = Inr r"
    and g: "\<forall>k\<in>{''player_id'', ''captured_by_id'', ''retaken_by_id'', ''remaining_ticks''}.
              py_getattr r k = Inr (case map_of st k of None \<Rightarrow> PNone | Some v \<Rightarrow> v)"
    using RawZone_from_json_fields [of z st tag] by blast
  have "py_getattr r k = Inr PNone"
    if "k \<in> {''player_id'', ''captured_by_id'', ''retaken_by_id'', ''remaining_ticks''}"
      and "k \<notin> fst ` set st" for k
  proof -
    from g that(1)
    have "py_getattr r k = Inr (case map_of st k of None \<Rightarrow> PNone | Some v \<Rightarrow> v)" by blast
    with that(2) show ?thesis by (simp add: map_of_eq_None_iff [THEN iffD2])
  qed
  with r show "\<exists>r. RawZone_from_json (PDict z) = Inr r \<and>
         (\<forall>k\<in>{''player_id'', ''captured_by_id'', ''retaken_by_id'', ''remaining_ticks''}.
            k \<notin> fst ` set st \<longrightarrow> py_getattr r k = Inr PNone)"
    by blast
qed

lemma binds_simps:
  "binds RawPlayer kw \<longleftrightarrow>
     fst ` set kw \<subseteq> {''id'', ''nickname'', ''color'', ''score'', ''ping'', ''ticks_to_regen''} \<and>
     {''id'', ''nickname'', ''color''} \<subseteq> fst ` set kw"
  "binds RawTurret kw \<longleftrightarrow>
     fst ` set kw \<subseteq> {''direction'', ''bullet_count'', ''ticks_to_regen_bullet''} \<and>
     ''direction'' \<in> fst ` set kw"
  "binds RawBullet kw \<longleftrightarrow>
     fst ` set kw \<subseteq> {''id'', ''speed'', ''direction''} \<and> ''id'' \<in> fst ` set kw"
  "binds RawTank kw \<longleftrightarrow>
     fst ` set kw \<subseteq> {''owner_id'', ''direction'', ''turret'', ''health''} \<and>
     {''owner_id'', ''direction'', ''turret''} \<subseteq> fst ` set kw"
  by (auto simp add: binds_def)

theorem missing_optional_fields_are_None_witness:
  "(\<exists>r. RawPlayer_from_json
          (PDict [(''id'', PStr ''p1''), (''nickname'', PStr ''bot''), (''color'', PInt 255)]) = Inr r
      \<and> py_getattr r ''score'' = Inr PNone \<and> py_getattr r ''ping'' = Inr PNone
      \<and> py_getattr r ''ticks_to_regen'' = Inr PNone)
 \<and> (\<exists>r. RawTurret_from_json (PDict [(''direction'', PInt 1)]) = Inr r
      \<and> py_getattr r ''bullet_count'' = Inr PNone
      \<and> py_getattr r ''ticks_to_regen_bullet'' = Inr PNone)
 \<and> (\<exists>r. RawBullet_from_json (PDict [(''id'', PInt 7)]) = Inr r
      \<and> py_getattr r ''speed'' = Inr PNone \<and> py_getattr r ''direction'' = Inr PNone)
 \<and> (\<exists>r. RawTank_from_json
          (PDict [(''owner_id'', PStr ''p1''), (''direction'', PInt 0),
                  (''turret'', PDict [(''direction'', PInt 1)])]) = Inr r
      \<and> py_getattr r ''health'' = Inr PNone)
 \<and> (\<exists>r. RawZone_from_json
          (PDict [(''x'', PInt 0), (''y'', PInt 0), (''width'', PInt 1), (''height'', PInt 1),
                  (''index'', PInt 0), (''status'', PDict [(''type'', PStr ''neutral'')])]) = Inr r
      \<and> py_getattr r ''player_id'' = Inr PNone \<and> py_getattr r ''captured_by_id'' = Inr PNone
      \<and> py_getattr r ''retaken_by_id'' = Inr PNone \<and> py_getattr r ''remaining_ticks'' = Inr PNone)"
  using missing_optional_fields_are_None [of
      "[(''id'', PStr ''p1''), (''nickname'', PStr ''bot''), (''color'', PInt 255)]"
      "[(''direction'', PInt 1)]"
      "[(''id'', PInt 7)]"
      "[(''owner_id'', PStr ''p1''), (''direction'', PInt 0),
        (''turret'', PDict [(''direction'', PInt 1)])]"
      "PDict [(''direction'', PInt 1)]"
      "PObj RawTurret [(''direction'', PInt 1), (''bullet_count'', PNone),
            (''ticks_to_regen_bullet'', PNone)]"
      "[(''x'', PInt 0), (''y'', PInt 0), (''width'', PInt 1), (''height'', PInt 1),
        (''index'', PInt 0), (''status'', PDict [(''type'', PStr ''neutral'')])]"
      "[(''type'', PStr ''neutral'')]" "PStr ''neutral''"]
  by (simp add: binds_simps binds_RawZone_iff RawTurret_from_json_direction)

section \<open>Rotation responses\<close>

text \<open>
  C3, as amended. Building a rotation payload accepts every combination of the two
  rotation fields, the one with both absent included: the constructor stores the
  game-state id and the two values as they are and raises nothing.
\<close>

theorem rotation_payload_accepts_every_combination:
  "dataclass_new TankRotationPayload [game_state_id, tank_rotation, turret_rotation] [] =
     Inr (PObj TankRotationPayload
            [(''game_state_id'', game_state_id), (''tank_rotation'', tank_rotation),
             (''turret_rotation'', turret_rotation)])"
  by (simp add: dataclass_new_def bound_value_def)

text \<open>
  C3 as stated fails: a rotation payload with both rotations absent is built, not
  rejected.
\<close>

theorem rotation_both_absent_counterexample:
  "dataclass_new TankRotationPayload [PStr ''state-1'', PNone, PNone] [] =
     Inr (PObj TankRotationPayload
            [(''game_state_id'', PStr ''state-1''), (''tank_rotation'', PNone),
             (''turret_rotation'', PNone)])"
  by (simp add: dataclass_new_def bound_value_def)

section \<open>Tank views\<close>

lemma markers_simps:
  "markers PlayerTank = [''__instancecheck_tank__'']"
  "markers AgentTank = [''__instancecheck_tank__'', ''__instancecheck_agenttank__'']"
  by (simp_all add: markers_def is_marker_def)

text \<open>
  C7. An object that passes the structural test for \<open>AgentTank\<close> passes it for
  \<open>PlayerTank\<close>, and an object with the markers of \<open>AgentTank\<close> has the marker of
  \<open>PlayerTank\<close>; the converse fails, since an object can have all of \<open>PlayerTank\<close> and
  lack the agent marker. So the two tests are separate, and the first implies the
  second.
\<close>

theorem agent_tank_implies_player_tank:
  "(isinstance_protocol obj AgentTank \<longrightarrow> isinstance_protocol obj PlayerTank)
 \<and> (has_markers obj AgentTank \<longrightarrow> has_markers obj PlayerTank)
 \<and> (\<exists>other. isinstance_protocol other PlayerTank \<and> has_markers other PlayerTank \<and>
        \<not> isinstance_protocol other AgentTank \<and> \<not> has_markers other AgentTank)"
proof (intro conjI impI)
  assume "isinstance_protocol obj AgentTank"
  then show "isinstance_protocol obj PlayerTank" by (simp add: isinstance_protocol_def)
next
  assume "has_markers obj AgentTank"
  then show "has_markers obj PlayerTank" by (simp add: has_markers_def markers_simps)
next
  let ?other = "[''__instancecheck_tank__'', ''owner_id'', ''direction'', ''turret'']"
  have "isinstance_protocol ?other PlayerTank \<and> has_markers ?other PlayerTank \<and>
        \<not> isinstance_protocol ?other AgentTank \<and> \<not> has_markers ?other AgentTank"
    by (simp add: isinstance_protocol_def has_markers_def markers_simps)
  then show "\<exists>other. isinstance_protocol other PlayerTank \<and> has_markers other PlayerTank \<and>
        \<not> isinstance_protocol other AgentTank \<and> \<not> has_markers other AgentTank" by blast
qed

theorem agent_tank_implies_player_tank_witness:
  "isinstance_protocol
     [''__instancecheck_tank__'', ''__instancecheck_agenttank__'', ''owner_id'', ''direction'',
      ''turret'', ''health''] AgentTank
 \<and> isinstance_protocol
     [''__instancecheck_tank__'', ''__instancecheck_agenttank__'', ''owner_id'', ''direction'',
      ''turret'', ''health''] PlayerTank
 \<and> has_markers
     [''__instancecheck_tank__'', ''__instancecheck_agenttank__'', ''owner_id'', ''direction'',
      ''turret'', ''health''] PlayerTank"
proof -
  let ?agent = "[''__instancecheck_tank__'', ''__instancecheck_agenttank__'', ''owner_id'',
      ''direction'', ''turret'', ''health'']"
  have a: "isinstance_protocol ?agent AgentTank" by (simp add: isinstance_protocol_def)
  have m: "has_markers ?agent AgentTank" by (simp add: has_markers_def markers_simps)
  from agent_tank_implies_player_tank [of ?agent] a m show ?thesis by blast
qed

section \<open>Game states\<close>

lemma GameStatePayload_new:
  assumes "map_of d ''id'' = Some i" and "map_of d ''tick'' = Some t"
    and "fst ` set d \<subseteq> {''id'', ''tick'', ''players'', ''map''}"
  shows "dataclass_new GameStatePayload []
           (AList.update ''map'' m (AList.update ''players'' ps d)) =
         Inr (PObj GameStatePayload
                [(''id'', i), (''tick'', t), (''players'', ps), (''map'', m)])"
proof -
  let ?kw = "AList.update ''map'' m (AList.update ''players'' ps d)"
  have keys: "fst ` set ?kw = insert ''map'' (insert ''players'' (fst ` set d))"
    by (auto simp add: dom_update)
  from assms(1,2) have "''id'' \<in> fst ` set d" and "''tick'' \<in> fst ` set d"
    by (metis map_of_eq_None_iff option.distinct(1))+
  with assms(3) have "fst ` set ?kw \<subseteq> fst ` set (fields GameStatePayload)"
    and "\<forall>f\<in>set (fields GameStatePayload). snd f = None \<longrightarrow> fst f \<in> fst ` set ?kw"
    unfolding keys by auto
  from dataclass_new_kwargs [OF _ this] assms(1,2) show ?thesis
    by (simp add: update_conv')
qed

lemma GameStatePayload_from_json_split:
  assumes "map_of d ''id'' = Some i" and "map_of d ''tick'' = Some t"
    and "map_of d ''players'' = Some ps" and "map_of d ''map'' = Some m"
    and "fst ` set d \<subseteq> {''id'', ''tick'', ''players'', ''map''}"
  shows "GameStatePayload_from_json pz (PDict d) =
     ebind (tuple_of RawPlayer_from_json ps) (\<lambda>players.
     ebind (RawMap_from_json pz m) (\<lambda>raw_map.
     Inr (PObj GameStatePayload
            [(''id'', i), (''tick'', t), (''players'', players), (''map'', raw_map)])))"
proof -
  have "dataclass_new GameStatePayload []
           (AList.update ''map'' raw_map (AList.update ''players'' players d)) =
         Inr (PObj GameStatePayload
                [(''id'', i), (''tick'', t), (''players'', players), (''map'', raw_map)])"
    for players raw_map
    using assms(1,2,5) by (rule GameStatePayload_new)
  with assms(3,4) show ?thesis
    by (simp add: GameStatePayload_from_json_def update_conv')
qed

text \<open>A map of one tile that holds one tank decodes whoever the owner of the tank is.\<close>

lemma RawTank_from_json_any_owner:
  assumes "RawTurret_from_json tj = Inr turret"
  shows "RawTank_from_json
           (PDict [(''owner_id'', owner), (''direction'', dir), (''turret'', tj)]) =
         Inr (PObj RawTank [(''owner_id'', owner), (''direction'', dir),
                (''turret'', turret), (''health'', PNone)])"
  using assms
  by (simp add: RawTank_from_json_turret_first dataclass_new_def bound_value_def)

lemma RawMap_from_json_one_tank:
  assumes "pascalizes_tags pz" and "RawTurret_from_json tj = Inr turret"
  shows "RawMap_from_json pz
           (PDict [(''tiles'', PList [PList [PList [PDict [(''type'', PStr ''tank''),
                      (''payload'', PDict [(''owner_id'', owner), (''direction'', dir),
                                           (''turret'', tj)])]]]]),
                   (''zones'', PList []), (''visibility'', PList [])]) =
         Inr (PObj RawMap
           [(''tiles'', PTuple [PTuple [PTuple [PObj RawTileObject
               [(''type'', PStr ''tank''),
                (''entity'', PObj RawTank [(''owner_id'', owner), (''direction'', dir),
                     (''turret'', turret), (''health'', PNone)])]]]]),
            (''zones'', PTuple []), (''visibility'', PTuple [])])"
proof -
  from assms(1) have "pz (PStr ''tank'') = Inr ''Tank''" by (simp add: pascalizes_tags_def)
  from RawTileObject_from_json_known [of _ "PStr ''tank''" pz "''Tank''" RawTank, OF _ this]
    RawTank_from_json_any_owner [OF assms(2), of owner dir]
  have "RawTileObject_from_json pz (PDict [(''type'', PStr ''tank''),
                      (''payload'', PDict [(''owner_id'', owner), (''direction'', dir),
                                           (''turret'', tj)])]) =
        Inr (PObj RawTileObject
               [(''type'', PStr ''tank''),
                (''entity'', PObj RawTank [(''owner_id'', owner), (''direction'', dir),
                     (''turret'', turret), (''health'', PNone)])])"
    by (simp add: globals_get_entities issubclass_entities)
  then show ?thesis
    by (simp add: RawMap_from_json_def tuple_of_def dataclass_new_def bound_value_def)
qed

text \<open>
  C2, as amended. The game-state decoder makes no referential check. An input with the
  keys \<^verbatim>\<open>id\<close>, \<^verbatim>\<open>tick\<close>, \<^verbatim>\<open>players\<close> and \<^verbatim>\<open>map\<close> decodes exactly when its player list
  decodes and its map decodes, each on its own, the players first; the map decoder
  never sees the player list. So a game state whose map holds a tank decodes for every
  owner of the tank and every player list that decodes, also when the owner matches
  no player, and for inputs where every owner matches a player nothing referential can
  fail either.
\<close>

theorem game_state_decodes_players_and_map_apart:
  "(map_of d ''id'' = Some i \<and> map_of d ''tick'' = Some t \<and> map_of d ''players'' = Some ps \<and>
    map_of d ''map'' = Some m \<and> fst ` set d \<subseteq> {''id'', ''tick'', ''players'', ''map''} \<longrightarrow>
    GameStatePayload_from_json pz (PDict d) =
      ebind (tuple_of RawPlayer_from_json ps) (\<lambda>players.
      ebind (RawMap_from_json pz m) (\<lambda>raw_map.
      Inr (PObj GameStatePayload
             [(''id'', i), (''tick'', t), (''players'', players), (''map'', raw_map)]))))
 \<and> (pascalizes_tags pz \<and> tuple_of RawPlayer_from_json ps' = Inr players' \<and>
    RawTurret_from_json tj = Inr turret \<longrightarrow>
    GameStatePayload_from_json pz
      (PDict [(''id'', i'), (''tick'', t'), (''players'', ps'),
         (''map'', PDict [
            (''tiles'', PList [PList [PList [PDict [(''type'', PStr ''tank''),
               (''payload'', PDict [(''owner_id'', owner), (''direction'', dir),
                                    (''turret'', tj)])]]]]),
            (''zones'', PList []), (''visibility'', PList [])])]) =
    Inr (PObj GameStatePayload
      [(''id'', i'), (''tick'', t'), (''players'', players'),
       (''map'', PObj RawMap
          [(''tiles'', PTuple [PTuple [PTuple [PObj RawTileObject
              [(''type'', PStr ''tank''),
               (''entity'', PObj RawTank [(''owner_id'', owner), (''direction'', dir),
                    (''turret'', turret), (''health'', PNone)])]]]]),
           (''zones'', PTuple []), (''visibility'', PTuple [])])]))"
proof (rule conjI; rule impI)
  assume "map_of d ''id'' = Some i \<and> map_of d ''tick'' = Some t \<and>
    map_of d ''players'' = Some ps \<and> map_of d ''map'' = Some m \<and>
    fst ` set d \<subseteq> {''id'', ''tick'', ''players'', ''map''}"
  then show "GameStatePayload_from_json pz (PDict d) =
      ebind (tuple_of RawPlayer_from_json ps) (\<lambda>players.
      ebind (RawMap_from_json pz m) (\<lambda>raw_map.
      Inr (PObj GameStatePayload
             [(''id'', i), (''tick'', t), (''players'', players), (''map'', raw_map)])))"
    using GameStatePayload_from_json_split [of d i t ps m pz] by blast
next
  let ?m = "PDict [
            (''tiles'', PList [PList [PList [PDict [(''type'', PStr ''tank''),
               (''payload'', PDict [(''owner_id'', owner), (''direction'', dir),
                                    (''turret'', tj)])]]]]),
            (''zones'', PList []), (''visibility'', PList [])]"
  assume a: "pascalizes_tags pz \<and> tuple_of RawPlayer_from_json ps' = Inr players' \<and>
    RawTurret_from_json tj = Inr turret"
  then have m: "RawMap_from_json pz ?m = Inr (PObj RawMap
          [(''tiles'', PTuple [PTuple [PTuple [PObj RawTileObject
              [(''type'', PStr ''tank''),
               (''entity'', PObj RawTank [(''owner_id'', owner), (''direction'', dir),
                    (''turret'', turret), (''health'', PNone)])]]]]),
           (''zones'', PTuple []), (''visibility'', PTuple [])])"
    using RawMap_from_json_one_tank [of pz tj turret owner dir] by blast
  have "GameStatePayload_from_json pz
      (PDict [(''id'', i'), (''tick'', t'), (''players'', ps'), (''map'', ?m)]) =
      ebind (tuple_of RawPlayer_from_json ps') (\<lambda>players.
      ebind (RawMap_from_json pz ?m) (\<lambda>raw_map.
      Inr (PObj GameStatePayload
             [(''id'', i'), (''tick'', t'), (''players'', players), (''map'', raw_map)])))"
    by (rule GameStatePayload_from_json_split) simp_all
  with a m show "GameStatePayload_from_json pz
      (PDict [(''id'', i'), (''tick'', t'), (''players'', ps'), (''map'', ?m)]) =
    Inr (PObj GameStatePayload
      [(''id'', i'), (''tick'', t'), (''players'', players'),
       (''map'', PObj RawMap
          [(''tiles'', PTuple [PTuple [PTuple [PObj RawTileObject
              [(''type'', PStr ''tank''),
               (''entity'', PObj RawTank [(''owner_id'', owner), (''direction'', dir),
                    (''turret'', turret), (''health'', PNone)])]]]]),
           (''zones'', PTuple []), (''visibility'', PTuple [])])])"
    by simp
qed

theorem game_state_decodes_players_and_map_apart_witness:
  "GameStatePayload_from_json pascalize_tag
     (PDict [(''id'', PStr ''state-1''), (''tick'', PInt 1),
        (''players'', PList [PDict [(''id'', PStr ''p1''), (''nickname'', PStr ''bot''),
                                   (''color'', PInt 255)]]),
        (''map'', PDict [
           (''tiles'', PList [PList [PList [PDict [(''type'', PStr ''tank''),
              (''payload'', PDict [(''owner_id'', PStr ''p2''), (''direction'', PInt 0),
                                   (''turret'', PDict [(''direction'', PInt 1)])])]]]]),
           (''zones'', PList []), (''visibility'', PList [])])]) =
   Inr (PObj GameStatePayload
     [(''id'', PStr ''state-1''), (''tick'', PInt 1),
      (''players'', PTuple [PObj RawPlayer
         [(''id'', PStr ''p1''), (''nickname'', PStr ''bot''), (''color'', PInt 255),
          (''score'', PNone), (''ping'', PNone), (''ticks_to_regen'', PNone)]]),
      (''map'', PObj RawMap
         [(''tiles'', PTuple [PTuple [PTuple [PObj RawTileObject
             [(''type'', PStr ''tank''),
              (''entity'', PObj RawTank
                 [(''owner_id'', PStr ''p2''), (''direction'', PInt 0),
                  (''turret'', PObj RawTurret
                     [(''direction'', PInt 1), (''bullet_count'', PNone),
                      (''ticks_to_regen_bullet'', PNone)]),
                  (''health'', PNone)])]]]]),
          (''zones'', PTuple []), (''visibility'', PTuple [])])])
 \<and> GameStatePayload_from_json pascalize_tag
     (PDict [(''id'', PStr ''state-2''), (''tick'', PInt 2), (''players'', PList []),
             (''map'', PInt 0)]) =
   Inl (TypeError NotSubscriptable)"
proof -
  let ?ps = "PList [PDict [(''id'', PStr ''p1''), (''nickname'', PStr ''bot''),
                           (''color'', PInt 255)]]"
  let ?players = "PTuple [PObj RawPlayer
         [(''id'', PStr ''p1''), (''nickname'', PStr ''bot''), (''color'', PInt 255),
          (''score'', PNone), (''ping'', PNone), (''ticks_to_regen'', PNone)]]"
  let ?turret = "PObj RawTurret
                     [(''direction'', PInt 1), (''bullet_count'', PNone),
                      (''ticks_to_regen_bullet'', PNone)]"
  let ?d = "[(''id'', PStr ''state-2''), (''tick'', PInt 2), (''players'', PList []),
             (''map'', PInt 0)]"
  have 1: "tuple_of RawPlayer_from_json ?ps = Inr ?players"
    by (simp add: tuple_of_def RawPlayer_from_json_def dataclass_new_def bound_value_def)
  have 2: "RawTurret_from_json (PDict [(''direction'', PInt 1)]) = Inr ?turret"
    by (rule RawTurret_from_json_direction)
  have 3: "tuple_of RawPlayer_from_json (PList []) = Inr (PTuple [])"
    by (simp add: tuple_of_def)
  have 4: "RawMap_from_json pascalize_tag (PInt 0) = Inl (TypeError NotSubscriptable)"
    by (simp add: RawMap_from_json_def)
  from game_state_decodes_players_and_map_apart [of ?d "PStr ''state-2''" "PInt 2" "PList []"
      "PInt 0" pascalize_tag ?ps ?players "PDict [(''direction'', PInt 1)]" ?turret
      "PStr ''state-1''" "PInt 1" "PStr ''p2''" "PInt 0"]
    pascalizes_tags_pascalize_tag 1 2 3 4
  show ?thesis by simp
qed

text \<open>
  C2 as stated fails: a game state whose only player is \<^verbatim>\<open>alice\<close> and whose map holds a
  tank owned by \<^verbatim>\<open>nobody\<close> decodes.
\<close>

theorem dangling_owner_counterexample:
  "GameStatePayload_from_json pascalize_tag
     (PDict [(''id'', PStr ''state-7''), (''tick'', PInt 7),
        (''players'', PList [PDict [(''id'', PStr ''alice''), (''nickname'', PStr ''a''),
                                   (''color'', PInt 1)]]),
        (''map'', PDict [
           (''tiles'', PList [PList [PList [PDict [(''type'', PStr ''tank''),
              (''payload'', PDict [(''owner_id'', PStr ''nobody''), (''direction'', PInt 2),
                                   (''turret'', PDict [(''direction'', PInt 3)])])]]]]),
           (''zones'', PList []), (''visibility'', PList [PStr ''1''])])]) =
   Inr (PObj GameStatePayload
     [(''id'', PStr ''state-7''), (''tick'', PInt 7),
      (''players'', PTuple [PObj RawPlayer
         [(''id'', PStr ''alice''), (''nickname'', PStr ''a''), (''color'', PInt 1),
          (''score'', PNone), (''ping'', PNone), (''ticks_to_regen'', PNone)]]),
      (''map'', PObj RawMap
         [(''tiles'', PTuple [PTuple [PTuple [PObj RawTileObject
             [(''type'', PStr ''tank''),
              (''entity'', PObj RawTank
                 [(''owner_id'', PStr ''nobody''), (''direction'', PInt 2),
                  (''turret'', PObj RawTurret
                     [(''direction'', PInt 3), (''bullet_count'', PNone),
                      (''ticks_to_regen_bullet'', PNone)]),
                  (''health'', PNone)])]]]]),
          (''zones'', PTuple []), (''visibility'', PTuple [PStr ''1''])])])"
  by (simp add: GameStatePayload_from_json_def tuple_of_def RawPlayer_from_json_def
        RawMap_from_json_def RawTileObject_from_json_def RawTank_from_json_def
        RawTurret_from_json_def dataclass_new_def bound_value_def pascalize_tags
        globals_get_def issubclass_def)

section \<open>Frozen records\<close>

lemma ebind_eq_Inr: "ebind m f = Inr r \<longleftrightarrow> (\<exists>v. m = Inr v \<and> f v = Inr r)"
  by (cases m) simp_all

lemma is_json_records_frozen: "is_json j \<Longrightarrow> records_frozen j"
  by (induction j rule: records_frozen.induct) auto

lemma set_update_subset: "set (AList.update k v al) \<subseteq> insert (k, v) (set al)"
  by (induction al) auto

lemma set_delete_subset: "set (AList.delete k al) \<subseteq> set al"
  by (induction al) auto

lemma rf_getitem: "getitem j k = Inr v \<Longrightarrow> records_frozen j \<Longrightarrow> records_frozen v"
  by (cases j) (auto split: option.splits dest!: map_of_SomeD)

lemma rf_setitem:
  "setitem j k v = Inr j' \<Longrightarrow> records_frozen j \<Longrightarrow> records_frozen v \<Longrightarrow> records_frozen j'"
  using set_update_subset [of k v] by (cases j) fastforce+

lemma rf_dict_get:
  "dict_get j k dflt = Inr v \<Longrightarrow> records_frozen j \<Longrightarrow> records_frozen dflt \<Longrightarrow> records_frozen v"
  by (cases j) (auto split: option.splits dest!: map_of_SomeD)

lemma rf_dict_pop:
  "dict_pop j k = Inr p \<Longrightarrow> records_frozen j \<Longrightarrow>
     records_frozen (fst p) \<and> records_frozen (snd p)"
  using set_delete_subset [of k] by (cases j) (fastforce split: option.splits dest!: map_of_SomeD)+

lemma rf_dict_pop_default:
  "dict_pop_default j k dflt = Inr p \<Longrightarrow> records_frozen j \<Longrightarrow> records_frozen dflt \<Longrightarrow>
     records_frozen (fst p) \<and> records_frozen (snd p)"
  using set_delete_subset [of k] by (cases j) (fastforce split: option.splits dest!: map_of_SomeD)+

lemma rf_py_iter: "py_iter j = Inr xs \<Longrightarrow> records_frozen j \<Longrightarrow> \<forall>x\<in>set xs. records_frozen x"
  by (cases j) auto

lemma rf_kwargs_of:
  "kwargs_of j = Inr kw \<Longrightarrow> records_frozen j \<Longrightarrow> \<forall>kv\<in>set kw. records_frozen (snd kv)"
  by (cases j) auto

lemma traverse_all:
  "traverse f xs = Inr ys \<Longrightarrow> (\<And>x y. x \<in> set xs \<Longrightarrow> f x = Inr y \<Longrightarrow> P y) \<Longrightarrow>
     \<forall>y\<in>set ys. P y"
proof (induction xs arbitrary: ys)
  case Nil
  then show ?case by simp
next
  case (Cons x xs)
  from Cons.prems(1) obtain y ys' where y: "f x = Inr y" and ys': "traverse f xs = Inr ys'"
    and ys: "ys = y # ys'"
    by (auto split: sum.splits)
  have "\<forall>y\<in>set ys'. P y"
  proof (rule Cons.IH [OF ys'])
    fix x' y'
    assume "x' \<in> set xs" and "f x' = Inr y'"
    then show "P y'" using Cons.prems(2) [of x' y'] by simp
  qed
  moreover from y have "P y" using Cons.prems(2) [of x y] by simp
  ultimately show ?case using ys by simp
qed

lemma rf_tuple_of:
  assumes "tuple_of f src = Inr r" and "records_frozen src"
    and "\<And>x y. records_frozen x \<Longrightarrow> f x = Inr y \<Longrightarrow> records_frozen y"
  shows "records_frozen r"
proof -
  from assms(1) obtain xs ys where xs: "py_iter src = Inr xs" and ys: "traverse f xs = Inr ys"
    and r: "r = PTuple ys"
    by (auto simp add: tuple_of_def ebind_eq_Inr)
  from rf_py_iter [OF xs assms(2)] have "\<forall>x\<in>set xs. records_frozen x" .
  with traverse_all [OF ys, of records_frozen] assms(3) have "\<forall>y\<in>set ys. records_frozen y"
    by blast
  with r show ?thesis by simp
qed

lemma rf_dataclass_new:
  assumes "dataclass_new c args kw = Inr r" and "frozen c"
    and "\<forall>a\<in>set args. records_frozen a" and "\<forall>kv\<in>set kw. records_frozen (snd kv)"
  shows "records_frozen r \<and> instance_of r c"
proof -
  let ?bound = "zip (map fst (fields c)) args @ kw"
  from assms(1) have r: "r = PObj c (map (\<lambda>f. (fst f,
        case bound_value ?bound f of Some v \<Rightarrow> v | None \<Rightarrow> PNone)) (fields c))"
    by (auto simp add: dataclass_new_def Let_def split: if_splits option.splits)
  have "records_frozen (case bound_value ?bound f of Some v \<Rightarrow> v | None \<Rightarrow> PNone)"
    if "f \<in> set (fields c)" for f
  proof (cases "map_of ?bound (fst f)")
    case None
    with fields_default_None [OF that] show ?thesis
      by (auto simp add: bound_value_def map_add_def)
  next
    case (Some v)
    then have "(fst f, v) \<in> set ?bound" by (rule map_of_SomeD)
    then have "v \<in> set args \<or> (fst f, v) \<in> set kw" by (auto dest: set_zip_rightD)
    with assms(3,4) have "records_frozen v" by force
    with Some show ?thesis by (simp add: bound_value_def map_add_def)
  qed
  with r assms(2) show ?thesis by simp
qed

lemma rf_plain:
  assumes "ebind (kwargs_of j) (dataclass_new c []) = Inr r" and "frozen c"
    and "records_frozen j"
  shows "records_frozen r \<and> instance_of r c"
proof -
  from assms(1) obtain kw where kw: "kwargs_of j = Inr kw" and r: "dataclass_new c [] kw = Inr r"
    by (auto simp add: ebind_eq_Inr)
  from rf_dataclass_new [OF r assms(2)] rf_kwargs_of [OF kw assms(3)] show ?thesis by simp
qed

lemma frozen_classes: "c \<noteq> Payload \<Longrightarrow> frozen c"
  by (cases c) simp_all

lemma rf_RawTurret:
  "RawTurret_from_json j = Inr r \<Longrightarrow> records_frozen j \<Longrightarrow>
     records_frozen r \<and> instance_of r RawTurret"
  unfolding RawTurret_from_json_def by (rule rf_plain) simp_all

lemma rf_RawTank:
  assumes "RawTank_from_json j = Inr r" and "records_frozen j"
  shows "records_frozen r \<and> instance_of r RawTank"
proof -
  from assms(1) obtain t turret j' where t: "getitem j ''turret'' = Inr t"
    and turret: "RawTurret_from_json t = Inr turret"
    and j': "setitem j ''turret'' turret = Inr j'"
    and r: "ebind (kwargs_of j') (dataclass_new RawTank []) = Inr r"
    by (auto simp add: RawTank_from_json_def ebind_eq_Inr)
  from rf_getitem [OF t assms(2)] rf_RawTurret [OF turret] have "records_frozen turret" by simp
  from rf_setitem [OF j' assms(2) this] have "records_frozen j'" .
  from rf_plain [OF r _ this] show ?thesis by simp
qed

lemma rf_RawZone:
  assumes "RawZone_from_json j = Inr r" and "records_frozen j"
  shows "records_frozen r \<and> instance_of r RawZone"
proof -
  from assms(1) obtain p ty v1 v2 v3 v4 j1 j2 j3 j4 j5
    where p: "dict_pop_default j ''status'' (PDict []) = Inr p"
      and ty: "getitem (fst p) ''type'' = Inr ty"
      and j1: "setitem (snd p) ''status'' ty = Inr j1"
      and v1: "dict_get (fst p) ''player_id'' PNone = Inr v1"
      and j2: "setitem j1 ''player_id'' v1 = Inr j2"
      and v2: "dict_get (fst p) ''captured_by_id'' PNone = Inr v2"
      and j3: "setitem j2 ''captured_by_id'' v2 = Inr j3"
      and v3: "dict_get (fst p) ''retaken_by_id'' PNone = Inr v3"
      and j4: "setitem j3 ''retaken_by_id'' v3 = Inr j4"
      and v4: "dict_get (fst p) ''remaining_ticks'' PNone = Inr v4"
      and j5: "setitem j4 ''remaining_ticks'' v4 = Inr j5"
      and r: "ebind (kwargs_of j5) (dataclass_new RawZone []) = Inr r"
    unfolding RawZone_from_json_def ebind_eq_Inr Let_def by blast
  from rf_dict_pop_default [OF p assms(2)]
  have st: "records_frozen (fst p)" and j0: "records_frozen (snd p)" by simp_all
  from rf_setitem [OF j1 j0 rf_getitem [OF ty st]] have "records_frozen j1" .
  from rf_setitem [OF j2 this rf_dict_get [OF v1 st]] have "records_frozen j2" by simp
  from rf_setitem [OF j3 this rf_dict_get [OF v2 st]] have "records_frozen j3" by simp
  from rf_setitem [OF j4 this rf_dict_get [OF v3 st]] have "records_frozen j4" by simp
  from rf_setitem [OF j5 this rf_dict_get [OF v4 st]] have "records_frozen j5" by simp
  from rf_plain [OF r _ this] show ?thesis by simp
qed

lemma rf_entity:
  assumes "entity_from_json c j = Inr r" and "records_frozen j"
  shows "records_frozen r"
proof (cases c)
  case RawTileEntity
  with assms show ?thesis by (simp add: RawTileEntity_from_json_def)
next
  case RawWall
  with assms rf_plain [of j RawWall r] show ?thesis by (simp add: RawWall_from_json_def)
next
  case RawBullet
  with assms rf_plain [of j RawBullet r] show ?thesis by (simp add: RawBullet_from_json_def)
next
  case RawTank
  with assms rf_RawTank [of j r] show ?thesis by simp
qed (use assms in simp_all)

lemma rf_RawTileObject:
  assumes "RawTileObject_from_json pz j = Inr r" and "records_frozen j"
  shows "records_frozen r \<and> instance_of r RawTileObject"
proof -
  from assms(1) obtain p pascal c payload entity
    where p: "dict_pop j ''type'' = Inr p"
      and payload: "dict_get (snd p) ''payload'' (PDict []) = Inr payload"
      and entity: "entity_from_json c payload = Inr entity"
      and r: "dataclass_new RawTileObject [fst p, entity] [] = Inr r"
    by (auto simp add: RawTileObject_from_json_def ebind_eq_Inr Let_def
          split: option.splits if_splits)
  from rf_dict_pop [OF p assms(2)]
  have ty: "records_frozen (fst p)" and j0: "records_frozen (snd p)" by simp_all
  from rf_dict_get [OF payload j0] have "records_frozen payload" by simp
  from rf_entity [OF entity this] have "records_frozen entity" .
  with rf_dataclass_new [OF r] ty show ?thesis by simp
qed

lemma rf_RawPlayer:
  "RawPlayer_from_json j = Inr r \<Longrightarrow> records_frozen j \<Longrightarrow>
     records_frozen r \<and> instance_of r RawPlayer"
  unfolding RawPlayer_from_json_def by (rule rf_plain) simp_all

lemma rf_RawMap:
  assumes "RawMap_from_json pz j = Inr r" and "records_frozen j"
  shows "records_frozen r \<and> instance_of r RawMap"
proof -
  from assms(1) obtain rows tiles j1 zs zones j2 vis visibility j3
    where rows: "getitem j ''tiles'' = Inr rows"
      and tiles: "tuple_of (tuple_of (tuple_of (RawTileObject_from_json pz))) rows = Inr tiles"
      and j1: "setitem j ''tiles'' tiles = Inr j1"
      and zs: "getitem j1 ''zones'' = Inr zs"
      and zones: "tuple_of RawZone_from_json zs = Inr zones"
      and j2: "setitem j1 ''zones'' zones = Inr j2"
      and vis: "getitem j2 ''visibility'' = Inr vis"
      and visibility: "tuple_of Inr vis = Inr visibility"
      and j3: "setitem j2 ''visibility'' visibility = Inr j3"
      and r: "ebind (kwargs_of j3) (dataclass_new RawMap []) = Inr r"
    unfolding RawMap_from_json_def ebind_eq_Inr by blast
  have tile: "records_frozen y"
    if "records_frozen x" and "tuple_of (RawTileObject_from_json pz) x = Inr y" for x y
    using that(2,1) by (rule rf_tuple_of) (simp add: rf_RawTileObject)
  have row: "records_frozen y"
    if "records_frozen x" and "tuple_of (tuple_of (RawTileObject_from_json pz)) x = Inr y" for x y
    using that(2,1) by (rule rf_tuple_of) (rule tile)
  from rf_tuple_of [OF tiles rf_getitem [OF rows assms(2)] row] have "records_frozen tiles" .
  from rf_setitem [OF j1 assms(2) this] have f1: "records_frozen j1" .
  have "records_frozen zones"
    using zones rf_getitem [OF zs f1] by (rule rf_tuple_of) (simp add: rf_RawZone)
  from rf_setitem [OF j2 f1 this] have f2: "records_frozen j2" .
  have "records_frozen visibility"
    using visibility rf_getitem [OF vis f2] by (rule rf_tuple_of) simp
  from rf_setitem [OF j3 f2 this] have "records_frozen j3" .
  from rf_plain [OF r _ this] show ?thesis by simp
qed

lemma rf_LobbyDataPayload:
  assumes "LobbyDataPayload_from_json j = Inr r" and "records_frozen j"
  shows "records_frozen r \<and> instance_of r LobbyDataPayload"
proof -
  from assms(1) obtain ps players j1 s server_settings j2
    where ps: "getitem j ''players'' = Inr ps"
      and players: "tuple_of RawPlayer_from_json ps = Inr players"
      and j1: "setitem j ''players'' players = Inr j1"
      and s: "getitem j1 ''server_settings'' = Inr s"
      and settings: "ebind (kwargs_of s) (dataclass_new ServerSettings []) = Inr server_settings"
      and j2: "setitem j1 ''server_settings'' server_settings = Inr j2"
      and r: "ebind (kwargs_of j2) (dataclass_new LobbyDataPayload []) = Inr r"
    unfolding LobbyDataPayload_from_json_def ebind_eq_Inr by blast
  have "records_frozen players"
    using players rf_getitem [OF ps assms(2)] by (rule rf_tuple_of) (simp add: rf_RawPlayer)
  from rf_setitem [OF j1 assms(2) this] have f1: "records_frozen j1" .
  from rf_plain [OF settings _ rf_getitem [OF s f1]] have "records_frozen server_settings"
    by simp
  from rf_setitem [OF j2 f1 this] have "records_frozen j2" .
  from rf_plain [OF r _ this] show ?thesis by simp
qed

lemma rf_GameStatePayload:
  assumes "GameStatePayload_from_json pz j = Inr r" and "records_frozen j"
  shows "records_frozen r \<and> instance_of r GameStatePayload"
proof -
  from assms(1) obtain ps players j1 m raw_map j2
    where ps: "getitem j ''players'' = Inr ps"
      and players: "tuple_of RawPlayer_from_json ps = Inr players"
      and j1: "setitem j ''players'' players = Inr j1"
      and m: "getitem j1 ''map'' = Inr m"
      and raw_map: "RawMap_from_json pz m = Inr raw_map"
      and j2: "setitem j1 ''map'' raw_map = Inr j2"
      and r: "ebind (kwargs_of j2) (dataclass_new GameStatePayload []) = Inr r"
    unfolding GameStatePayload_from_json_def ebind_eq_Inr by blast
  have "records_frozen players"
    using players rf_getitem [OF ps assms(2)] by (rule rf_tuple_of) (simp add: rf_RawPlayer)
  from rf_setitem [OF j1 assms(2) this] have f1: "records_frozen j1" .
  from rf_RawMap [OF raw_map rf_getitem [OF m f1]] have "records_frozen raw_map" by simp
  from rf_setitem [OF j2 f1 this] have "records_frozen j2" .
  from rf_plain [OF r _ this] show ?thesis by simp
qed

lemma rf_GameEndPayload:
  assumes "GameEndPayload_from_json j = Inr r" and "records_frozen j"
  shows "records_frozen r \<and> instance_of r GameEndPayload"
proof -
  from assms(1) obtain ps players j1
    where ps: "getitem j ''players'' = Inr ps"
      and players: "tuple_of (\<lambda>player. ebind (kwargs_of player) (dataclass_new RawPlayer [])) ps
                      = Inr players"
      and j1: "setitem j ''players'' players = Inr j1"
      and r: "ebind (kwargs_of j1) (dataclass_new GameEndPayload []) = Inr r"
    unfolding GameEndPayload_from_json_def ebind_eq_Inr by blast
  have "records_frozen players"
    using players rf_getitem [OF ps assms(2)]
    by (rule rf_tuple_of) (use rf_plain [of _ RawPlayer] in simp)
  from rf_setitem [OF j1 assms(2) this] have "records_frozen j1" .
  from rf_plain [OF r _ this] show ?thesis by simp
qed

lemma frozen_instance_refuses:
  "instance_of r c \<Longrightarrow> frozen c \<Longrightarrow> n \<in> fst ` set (fields c) \<Longrightarrow>
     py_setattr r n v = Inl (FrozenInstanceError n) \<and> py_delattr r n = Inl (FrozenInstanceError n)"
  by (cases r) simp_all

text \<open>
  C9. Whatever a decoder of the module returns, for an input without instances of a
  class that is not frozen (any tree of a JSON parser is such an input), is an instance
  of the decoder's class, that class is frozen, and so is the class of every instance
  nested in the result; assigning to a field of the record or deleting one fails with
  \<^verbatim>\<open>FrozenInstanceError\<close>. The same holds for every record built directly by the
  constructor of a dataclass of the module, such as the outgoing payloads. The decoders
  return new values and change no record that exists.
\<close>

theorem decoded_records_are_frozen:
  "((from_json, cls) \<in> set (decoders pz) \<and> records_frozen json_data \<and>
      from_json json_data = Inr r \<longrightarrow>
      instance_of r cls \<and> frozen cls \<and> records_frozen r
      \<and> (n \<in> fst ` set (fields cls) \<longrightarrow>
           py_setattr r n v = Inl (FrozenInstanceError n)
           \<and> py_delattr r n = Inl (FrozenInstanceError n)))
 \<and> (c \<noteq> Payload \<and> (\<forall>a\<in>set args. records_frozen a) \<and>
      (\<forall>kv\<in>set kw. records_frozen (snd kv)) \<and> dataclass_new c args kw = Inr r' \<longrightarrow>
      instance_of r' c \<and> records_frozen r'
      \<and> (n \<in> fst ` set (fields c) \<longrightarrow>
           py_setattr r' n v = Inl (FrozenInstanceError n)
           \<and> py_delattr r' n = Inl (FrozenInstanceError n)))"
proof (rule conjI; rule impI)
  assume a: "(from_json, cls) \<in> set (decoders pz) \<and> records_frozen json_data \<and>
      from_json json_data = Inr r"
  have "records_frozen r \<and> instance_of r cls"
    using a rf_plain [of json_data _ r] rf_RawPlayer [of json_data r]
      rf_RawMap [of pz json_data r] rf_RawTileObject [of pz json_data r]
      rf_RawTank [of json_data r] rf_RawTurret [of json_data r] rf_RawZone [of json_data r]
      rf_LobbyDataPayload [of json_data r] rf_GameStatePayload [of pz json_data r]
      rf_GameEndPayload [of json_data r]
    by (auto simp add: decoders_def RawWall_from_json_def RawBullet_from_json_def
          ConnectionRejectedPayload_from_json_def)
  moreover from a have "frozen cls" by (auto simp add: decoders_def)
  ultimately show "instance_of r cls \<and> frozen cls \<and> records_frozen r
      \<and> (n \<in> fst ` set (fields cls) \<longrightarrow>
           py_setattr r n v = Inl (FrozenInstanceError n)
           \<and> py_delattr r n = Inl (FrozenInstanceError n))"
    using frozen_instance_refuses [of r cls n v] by simp
next
  assume a: "c \<noteq> Payload \<and> (\<forall>a\<in>set args. records_frozen a) \<and>
      (\<forall>kv\<in>set kw. records_frozen (snd kv)) \<and> dataclass_new c args kw = Inr r'"
  then have f: "frozen c" by (simp add: frozen_classes)
  with a rf_dataclass_new [of c args kw r'] have "records_frozen r' \<and> instance_of r' c"
    by blast
  with f show "instance_of r' c \<and> records_frozen r'
      \<and> (n \<in> fst ` set (fields c) \<longrightarrow>
           py_setattr r' n v = Inl (FrozenInstanceError n)
           \<and> py_delattr r' n = Inl (FrozenInstanceError n))"
    using frozen_instance_refuses [of r' c n v] by simp
qed

theorem decoded_records_are_frozen_witness:
  "RawTank_from_json
     (PDict [(''owner_id'', PStr ''p1''), (''direction'', PInt 0),
             (''turret'', PDict [(''direction'', PInt 1)])]) =
   Inr (PObj RawTank
     [(''owner_id'', PStr ''p1''), (''direction'', PInt 0),
      (''turret'', PObj RawTurret [(''direction'', PInt 1), (''bullet_count'', PNone),
                                   (''ticks_to_regen_bullet'', PNone)]),
      (''health'', PNone)])
 \<and> py_setattr (PObj RawTank
     [(''owner_id'', PStr ''p1''), (''direction'', PInt 0),
      (''turret'', PObj RawTurret [(''direction'', PInt 1), (''bullet_count'', PNone),
                                   (''ticks_to_regen_bullet'', PNone)]),
      (''health'', PNone)]) ''health'' (PInt 3) = Inl (FrozenInstanceError ''health'')
 \<and> dataclass_new TankMovementPayload [PStr ''state-1'', PInt 0] [] =
     Inr (PObj TankMovementPayload [(''game_state_id'', PStr ''state-1''), (''direction'', PInt 0)])
 \<and> py_setattr (PObj TankMovementPayload
       [(''game_state_id'', PStr ''state-1''), (''direction'', PInt 0)]) ''direction'' (PInt 1) =
     Inl (FrozenInstanceError ''direction'')"
proof -
  let ?tank = "PDict [(''owner_id'', PStr ''p1''), (''direction'', PInt 0),
             (''turret'', PDict [(''direction'', PInt 1)])]"
  let ?r = "PObj RawTank
     [(''owner_id'', PStr ''p1''), (''direction'', PInt 0),
      (''turret'', PObj RawTurret [(''direction'', PInt 1), (''bullet_count'', PNone),
                                   (''ticks_to_regen_bullet'', PNone)]),
      (''health'', PNone)]"
  let ?m = "PObj TankMovementPayload [(''game_state_id'', PStr ''state-1''), (''direction'', PInt 0)]"
  have 1: "(RawTank_from_json, RawTank) \<in> set (decoders pascalize_tag)"
    by (simp add: decoders_def)
  have 2: "records_frozen ?tank" by simp
  have 3: "RawTank_from_json ?tank = Inr ?r"
    by (simp add: RawTank_from_json_turret_first RawTurret_from_json_direction
          dataclass_new_def bound_value_def)
  have 4: "dataclass_new TankMovementPayload [PStr ''state-1'', PInt 0] [] = Inr ?m"
    by (simp add: dataclass_new_def bound_value_def)
  have 5: "\<forall>a\<in>set [PStr ''state-1'', PInt 0]. records_frozen a" by simp
  have 6: "''health'' \<in> fst ` set (fields RawTank)" by simp
  have 7: "''direction'' \<in> fst ` set (fields TankMovementPayload)" by simp
  from 1 2 3 have p: "(RawTank_from_json, RawTank) \<in> set (decoders pascalize_tag) \<and>
      records_frozen ?tank \<and> RawTank_from_json ?tank = Inr ?r"
    by (intro conjI)
  from 4 5 have q: "TankMovementPayload \<noteq> Payload \<and>
      (\<forall>a\<in>set [PStr ''state-1'', PInt 0]. records_frozen a) \<and>
      (\<forall>kv\<in>set []. records_frozen (snd kv)) \<and>
      dataclass_new TankMovementPayload [PStr ''state-1'', PInt 0] [] = Inr ?m"
    by simp
  have a: "py_setattr ?r ''health'' (PInt 3) = Inl (FrozenInstanceError ''health'')"
    by (rule decoded_records_are_frozen [of RawTank_from_json RawTank pascalize_tag ?tank ?r
      "''health''" "PInt 3" TankMovementPayload "[PStr ''state-1'', PInt 0]" "[]" ?m,
      THEN conjunct1, THEN mp, OF p, THEN conjunct2, THEN conjunct2, THEN conjunct2,
      THEN mp, OF 6, THEN conjunct1])
  have b: "py_setattr ?m ''direction'' (PInt 1) = Inl (FrozenInstanceError ''direction'')"
    by (rule decoded_records_are_frozen [of RawTank_from_json RawTank pascalize_tag ?tank ?r
      "''direction''" "PInt 1" TankMovementPayload "[PStr ''state-1'', PInt 0]" "[]" ?m,
      THEN conjunct2, THEN mp, OF q, THEN conjunct2, THEN conjunct2,
      THEN mp, OF 7, THEN conjunct1])
  from 3 a 4 b show ?thesis by (intro conjI)
qed

end
